theory Spec2Isabelle
  imports Main "HOL-Library.Sublist"
begin

section \<open>JavaScript values used by the server\<close>

text \<open>
  The backend is \<^verbatim>\<open>exam-portal/backend/uploads/server.js\<close>, an Express application over
  three Mongoose models (User, Material, Chat). Text is modelled as \<^typ>\<open>string\<close>. Numbers
  are modelled as \<^typ>\<open>int\<close>, which is what a JavaScript Number is on the safe integer
  range; \<open>NaN\<close> is \<open>None\<close> of an \<^typ>\<open>int option\<close>. A field of a request is absent
  (\<open>undefined\<close> or \<open>null\<close>, \<open>None\<close> of a \<^typ>\<open>string option\<close>) or one string: the model
  is of requests whose query parameters and body fields are strings. Text is taken in
  its UTF-8 encoding, in which an ASCII keyword occurs exactly where it occurs in the
  text.
\<close>

text \<open>\<^verbatim>\<open>s.includes(p)\<close>: the pattern occurs in \<open>s\<close> as a contiguous run.\<close>

fun includes_str :: "string \<Rightarrow> string \<Rightarrow> bool" where
  "includes_str [] p = (p = [])"
| "includes_str (c # cs) p = (prefix p (c # cs) \<or> includes_str cs p)"

text \<open>Truthiness of a request field: absent, \<open>null\<close> and the empty string are falsy.\<close>

fun truthy :: "string option \<Rightarrow> bool" where
  "truthy None = False"
| "truthy (Some s) = (s \<noteq> [])"

section \<open>Documents and the three collections\<close>

text \<open>
  An ObjectId is a number here; \<open>JId\<close> is its rendering as a hexadecimal string in a
  response. Dates are milliseconds. Record fields carry a prefix for their collection
  (\<open>u_\<close> User, \<open>m_\<close> Material, \<open>c_\<close> Chat); otherwise they are the fields of the
  Mongoose schemas, with the \<open>createdAt\<close> and \<open>updatedAt\<close> of \<^verbatim>\<open>timestamps: true\<close>.
\<close>

type_synonym objectId = nat
type_synonym date = int

record user =
  u_id :: objectId
  u_name :: string
  u_email :: string
  u_password :: string
  u_role :: string
  u_department :: string
  u_semester :: int
  u_createdAt :: date
  u_updatedAt :: date

record material =
  m_id :: objectId
  m_title :: string
  m_description :: string
  m_subject :: string
  m_department :: string
  m_semester :: int
  m_type :: string
  m_year :: "int option"
  m_fileUrl :: string
  m_fileName :: string
  m_uploadedBy :: objectId
  m_uploadedByName :: string
  m_likes :: "objectId list"
  m_downloads :: int
  m_createdAt :: date
  m_updatedAt :: date

record chatEntry =
  c_id :: objectId
  c_userId :: objectId
  c_message :: string
  c_response :: string
  c_createdAt :: date
  c_updatedAt :: date

text \<open>
  The database: each collection is the list of its documents in natural order, which is
  the order of insertion; \<^verbatim>\<open>Model.find()\<close> with no sort returns them in that order.
\<close>

record state =
  users :: "user list"
  materials :: "material list"
  chats :: "chatEntry list"

text \<open>The decoded token that \<^verbatim>\<open>authMiddleware\<close> stores in \<^verbatim>\<open>req.user\<close>.\<close>

record claims =
  userId :: objectId
  role :: string
  email :: string

datatype json =
    JNull
  | JBool bool
  | JNum int
  | JStr string
  | JId objectId
  | JDate date
  | JArr "json list"
  | JObj "(string \<times> json) list"

datatype response = Response (status: nat) (body: json)

text \<open>A route parameter \<^verbatim>\<open>:id\<close>: a well-formed ObjectId, or text that Mongoose cannot cast.\<close>

datatype idParam = ObjId objectId | BadId

datatype storeError = CastError | ValidationError | DuplicateKey | InvalidRegex | BadSkip

text \<open>
  What the server calls in the language and in its libraries, taken as parameters: the
  string methods \<^verbatim>\<open>toLowerCase\<close> and \<^verbatim>\<open>trim\<close>, the removal of leading white space
  with which \<^verbatim>\<open>parseInt\<close> begins, bcrypt, the signing of a token, the
  regular-expression engine of the store (\<^verbatim>\<open>$regex\<close> with \<^verbatim>\<open>$options: 'i'\<close>: \<open>None\<close> for
  a pattern the engine rejects, else the test whether the pattern matches somewhere in a
  text, ignoring case), the folding of case under which that engine compares
  characters, and the message text of a store error.
\<close>

record env =
  toLowerCase :: "string \<Rightarrow> string"
  trim :: "string \<Rightarrow> string"
  trimStart :: "string \<Rightarrow> string"
  bcrypt_hash :: "string \<Rightarrow> string"
  bcrypt_compare :: "string \<Rightarrow> string \<Rightarrow> bool"
  jwt_sign :: "claims \<Rightarrow> string"
  regex_i :: "string \<Rightarrow> (string \<Rightarrow> bool) option"
  caseFold :: "string \<Rightarrow> string"
  error_message :: "storeError \<Rightarrow> string"

text \<open>
  \<^verbatim>\<open>parseInt(s)\<close> with no radix: leading white space is removed, one sign is read, a
  \<^verbatim>\<open>0x\<close> prefix selects base 16, and the longest run of digits is read; with no digit
  the result is \<open>NaN\<close>.
\<close>

definition digitVal :: "char \<Rightarrow> nat option" where
  "digitVal c =
     map_of (zip ''0123456789abcdefABCDEF''
                 [0, 1, 2, 3, 4, 5, 6, 7, 8, 9, 10, 11, 12, 13, 14, 15, 10, 11, 12, 13, 14, 15]) c"

definition isDigit :: "nat \<Rightarrow> char \<Rightarrow> bool" where
  "isDigit R c = (case digitVal c of None \<Rightarrow> False | Some d \<Rightarrow> d < R)"

definition digitsValue :: "nat \<Rightarrow> string \<Rightarrow> nat" where
  "digitsValue R ds =
     foldl (\<lambda>a c. a * R + (case digitVal c of None \<Rightarrow> 0 | Some d \<Rightarrow> d)) 0 ds"

fun stripSign :: "string \<Rightarrow> bool \<times> string" where
  "stripSign (c # cs) =
     (if c = CHR ''-'' then (True, cs) else if c = CHR ''+'' then (False, cs) else (False, c # cs))"
| "stripSign [] = (False, [])"

definition parseInt :: "env \<Rightarrow> string \<Rightarrow> int option" where
  "parseInt env str =
     (let (neg, s1) = stripSign (trimStart env str);
          hex = (prefix ''0x'' s1 \<or> prefix ''0X'' s1);
          R = (if hex then 16 else 10);
          ds = takeWhile (isDigit R) (if hex then drop 2 s1 else s1)
      in if ds = [] then None
         else Some ((if neg then - 1 else 1) * int (digitsValue R ds)))"

text \<open>\<^verbatim>\<open>parseInt(x) || d\<close> for a query parameter \<open>x\<close>: \<open>NaN\<close> and \<open>0\<close> are falsy.\<close>

definition parseIntOr :: "env \<Rightarrow> string option \<Rightarrow> int \<Rightarrow> int" where
  "parseIntOr env x d =
     (case x of
        None \<Rightarrow> d
      | Some s \<Rightarrow> (case parseInt env s of None \<Rightarrow> d | Some n \<Rightarrow> if n = 0 then d else n))"

definition errorBody :: "string \<Rightarrow> json" where
  "errorBody msg = JObj [(''error'', JStr msg)]"

subsection \<open>Store primitives\<close>

text \<open>
  The setters of the schema options \<^verbatim>\<open>lowercase: true, trim: true\<close> of the email path
  (the last declared runs first). Mongoose runs them on the value of a document and on
  the value of a query condition.
\<close>

definition emailSetters :: "env \<Rightarrow> string \<Rightarrow> string" where
  "emailSetters env e = toLowerCase env (trim env e)"

definition User_findOne_email :: "env \<Rightarrow> user list \<Rightarrow> string \<Rightarrow> user option" where
  "User_findOne_email env us e = find (\<lambda>u. u_email u = emailSetters env e) us"

definition User_findById :: "user list \<Rightarrow> objectId \<Rightarrow> user option" where
  "User_findById us i = find (\<lambda>u. u_id u = i) us"

definition User_countDocuments_role :: "user list \<Rightarrow> string \<Rightarrow> nat" where
  "User_countDocuments_role us r = length (filter (\<lambda>u. u_role u = r) us)"

text \<open>
  \<^verbatim>\<open>User.create\<close>: the schema trims the name, lower-cases and trims the email, requires
  name, email, password and role, and restricts the role; a semester that is \<open>NaN\<close>
  cannot be cast; \<open>_id\<close> is unique.
\<close>

definition User_create ::
  "env \<Rightarrow> user list \<Rightarrow> objectId \<Rightarrow> date \<Rightarrow> string \<Rightarrow> string \<Rightarrow> string \<Rightarrow> string \<Rightarrow> string
     \<Rightarrow> int option \<Rightarrow> storeError + user" where
  "User_create env us newId now nm em pw rl dep sem =
     (case sem of
        None \<Rightarrow> Inl CastError
      | Some n \<Rightarrow>
          if trim env nm = [] \<or> emailSetters env em = [] \<or> pw = []
             \<or> rl \<notin> set [''student'', ''faculty'']
          then Inl ValidationError
          else if newId \<in> set (map u_id us) then Inl DuplicateKey
          else Inr \<lparr>u_id = newId, u_name = trim env nm, u_email = emailSetters env em,
                    u_password = pw, u_role = rl, u_department = dep, u_semester = n,
                    u_createdAt = now, u_updatedAt = now\<rparr>)"

definition Material_findById :: "material list \<Rightarrow> objectId \<Rightarrow> material option" where
  "Material_findById ms i = find (\<lambda>m. m_id m = i) ms"

text \<open>
  \<^verbatim>\<open>Array.prototype.findIndex\<close> (\<open>None\<close> for \<open>-1\<close>), and the removal of one element at
  an index.
\<close>

fun findIndex :: "('a \<Rightarrow> bool) \<Rightarrow> 'a list \<Rightarrow> nat option" where
  "findIndex P [] = None"
| "findIndex P (x # xs) =
     (if P x then Some 0 else (case findIndex P xs of None \<Rightarrow> None | Some i \<Rightarrow> Some (Suc i)))"

definition removeAt :: "nat \<Rightarrow> 'a list \<Rightarrow> 'a list" where
  "removeAt i xs = take i xs @ drop (Suc i) xs"

text \<open>
  \<^verbatim>\<open>material.save()\<close> writes the document over the stored one with its \<open>_id\<close>, and
  \<^verbatim>\<open>findByIdAndDelete\<close> removes the stored document with that \<open>_id\<close>: each acts on the
  first document found.
\<close>

definition Material_save :: "material list \<Rightarrow> material \<Rightarrow> material list" where
  "Material_save ms m =
     (case findIndex (\<lambda>x. m_id x = m_id m) ms of None \<Rightarrow> ms | Some k \<Rightarrow> ms[k := m])"

definition Material_findByIdAndDelete :: "material list \<Rightarrow> objectId \<Rightarrow> material list" where
  "Material_findByIdAndDelete ms i =
     (case findIndex (\<lambda>m. m_id m = i) ms of None \<Rightarrow> ms | Some k \<Rightarrow> removeAt k ms)"

text \<open>
  \<^verbatim>\<open>Material.create\<close>: title (trimmed), subject, department, type, fileUrl and fileName
  are required strings, the type is one of four, semester is a required Number and year
  an optional one (\<open>NaN\<close> cannot be cast).
\<close>

record materialInput =
  i_title :: "string option"
  i_description :: string
  i_subject :: "string option"
  i_department :: "string option"
  i_semester :: "int option"
  i_type :: "string option"
  i_year :: "int option option"
  i_fileUrl :: string
  i_fileName :: string
  i_uploadedBy :: objectId
  i_uploadedByName :: string

definition Material_create ::
  "env \<Rightarrow> material list \<Rightarrow> objectId \<Rightarrow> date \<Rightarrow> materialInput \<Rightarrow> storeError + material" where
  "Material_create env ms newId now i =
     (case (i_semester i, i_year i) of
        (None, _) \<Rightarrow> Inl CastError
      | (_, Some None) \<Rightarrow> Inl CastError
      | (Some sem, yr) \<Rightarrow>
          (case (i_title i, i_subject i, i_department i, i_type i) of
             (Some t, Some sb, Some dp, Some ty) \<Rightarrow>
               if trim env t = [] \<or> sb = [] \<or> dp = [] \<or> i_fileUrl i = [] \<or> i_fileName i = []
                  \<or> ty \<notin> set [''notes'', ''pyq'', ''syllabus'', ''reference'']
               then Inl ValidationError
               else if newId \<in> set (map m_id ms) then Inl DuplicateKey
               else Inr \<lparr>m_id = newId, m_title = trim env t, m_description = i_description i,
                         m_subject = sb, m_department = dp, m_semester = sem, m_type = ty,
                         m_year = (case yr of None \<Rightarrow> None | Some y \<Rightarrow> y),
                         m_fileUrl = i_fileUrl i, m_fileName = i_fileName i,
                         m_uploadedBy = i_uploadedBy i,
                         m_uploadedByName = i_uploadedByName i,
                         m_likes = [], m_downloads = 0,
                         m_createdAt = now, m_updatedAt = now\<rparr>
           | _ \<Rightarrow> Inl ValidationError))"

text \<open>\<^verbatim>\<open>Chat.create\<close>: message and response are required strings.\<close>

definition Chat_create ::
  "chatEntry list \<Rightarrow> objectId \<Rightarrow> date \<Rightarrow> objectId \<Rightarrow> string \<Rightarrow> string \<Rightarrow> storeError + chatEntry" where
  "Chat_create cs newId now uid msg resp =
     (if msg = [] \<or> resp = [] then Inl ValidationError
      else if newId \<in> set (map c_id cs) then Inl DuplicateKey
      else Inr \<lparr>c_id = newId, c_userId = uid, c_message = msg, c_response = resp,
                c_createdAt = now, c_updatedAt = now\<rparr>)"

section \<open>The routes\<close>

text \<open>
  Each handler is a function of the database (and of the fresh \<open>_id\<close> and the clock the
  store uses when it writes) to the new database and the response. The handlers below
  run after \<^verbatim>\<open>authMiddleware\<close> has accepted the token, so they take the claims.
  A \<^verbatim>\<open>catch\<close> block that answers 500 is the \<open>Inl\<close> branch of a store call.
\<close>

definition orElse :: "string option \<Rightarrow> string \<Rightarrow> string" where
  "orElse x d = (case x of None \<Rightarrow> d | Some s \<Rightarrow> if s = [] then d else s)"

definition facultyOnly :: "claims \<Rightarrow> response option" where
  "facultyOnly c =
     (if role c \<noteq> ''faculty''
      then Some (Response 403 (errorBody ''Access denied. Faculty only.''))
      else None)"

subsection \<open>Register, Login, GetSelf\<close>

text \<open>
  The body of a registration. The form of the front end sends the semester as a number;
  a number other than zero acts as its decimal text.
\<close>

record registerBody =
  rb_name :: "string option"
  rb_email :: "string option"
  rb_password :: "string option"
  rb_role :: "string option"
  rb_department :: "string option"
  rb_semester :: "string option"

definition userSummary :: "user \<Rightarrow> json" where
  "userSummary u =
     JObj [(''id'', JId (u_id u)), (''name'', JStr (u_name u)), (''email'', JStr (u_email u)),
           (''role'', JStr (u_role u)), (''department'', JStr (u_department u)),
           (''semester'', JNum (u_semester u))]"

definition signToken :: "env \<Rightarrow> user \<Rightarrow> string" where
  "signToken env u = jwt_sign env \<lparr>userId = u_id u, role = u_role u, email = u_email u\<rparr>"

definition register :: "env \<Rightarrow> state \<Rightarrow> registerBody \<Rightarrow> objectId \<Rightarrow> date \<Rightarrow> state \<times> response" where
  "register env s b newId now =
     (case (rb_name b, rb_email b, rb_password b, rb_role b) of
        (Some nm, Some em, Some pw, Some rl) \<Rightarrow>
          if nm = [] \<or> em = [] \<or> pw = [] \<or> rl = []
          then (s, Response 400 (errorBody ''All fields are required''))
          else
            (case User_findOne_email env (users s) (trim env (toLowerCase env em)) of
               Some existingUser \<Rightarrow>
                 (s, Response 400 (errorBody ''User already exists with this email''))
             | None \<Rightarrow>
                 (case User_create env (users s) newId now (trim env nm)
                         (trim env (toLowerCase env em)) (bcrypt_hash env pw) rl
                         (orElse (rb_department b) ''Computer Science'')
                         (if truthy (rb_semester b)
                          then parseInt env (orElse (rb_semester b) []) else Some 1) of
                    Inl err \<Rightarrow>
                      (s, Response 500 (errorBody ''Registration failed. Please try again.''))
                  | Inr u \<Rightarrow>
                      (s\<lparr>users := users s @ [u]\<rparr>,
                       Response 201
                         (JObj [(''message'', JStr ''User registered successfully!''),
                                (''token'', JStr (signToken env u)),
                                (''user'', userSummary u)]))))
      | _ \<Rightarrow> (s, Response 400 (errorBody ''All fields are required'')))"

record loginBody =
  lb_email :: "string option"
  lb_password :: "string option"

definition login :: "env \<Rightarrow> state \<Rightarrow> loginBody \<Rightarrow> response" where
  "login env s b =
     (case (lb_email b, lb_password b) of
        (Some em, Some pw) \<Rightarrow>
          if em = [] \<or> pw = []
          then Response 400 (errorBody ''Email and password are required'')
          else
            (case User_findOne_email env (users s) (trim env (toLowerCase env em)) of
               None \<Rightarrow> Response 400 (errorBody ''Invalid email or password'')
             | Some u \<Rightarrow>
                 if \<not> bcrypt_compare env pw (u_password u)
                 then Response 400 (errorBody ''Invalid email or password'')
                 else Response 200
                        (JObj [(''message'', JStr ''Login successful!''),
                               (''token'', JStr (signToken env u)),
                               (''user'', userSummary u)]))
      | _ \<Rightarrow> Response 400 (errorBody ''Email and password are required''))"

definition getSelf :: "state \<Rightarrow> claims \<Rightarrow> response" where
  "getSelf s c =
     (case User_findById (users s) (userId c) of
        None \<Rightarrow> Response 404 (errorBody ''User not found'')
      | Some u \<Rightarrow> Response 200 (userSummary u))"

text \<open>\<^verbatim>\<open>userSchema.methods.toJSON\<close>: the document as an object, without its password.\<close>

definition user_toObject :: "user \<Rightarrow> (string \<times> json) list" where
  "user_toObject u =
     [(''_id'', JId (u_id u)), (''name'', JStr (u_name u)), (''email'', JStr (u_email u)),
      (''password'', JStr (u_password u)), (''role'', JStr (u_role u)),
      (''department'', JStr (u_department u)), (''semester'', JNum (u_semester u)),
      (''createdAt'', JDate (u_createdAt u)), (''updatedAt'', JDate (u_updatedAt u))]"

definition user_toJSON :: "user \<Rightarrow> json" where
  "user_toJSON u = JObj (filter (\<lambda>kv. fst kv \<noteq> ''password'') (user_toObject u))"

subsection \<open>Materials\<close>

text \<open>
  A material in a response: \<^verbatim>\<open>{ id: material._id.toString(), ...material }\<close>. The version
  key that Mongoose adds to a document is left out.
\<close>

definition materialDoc :: "material \<Rightarrow> (string \<times> json) list" where
  "materialDoc m =
     [(''_id'', JId (m_id m)), (''title'', JStr (m_title m)),
      (''description'', JStr (m_description m)), (''subject'', JStr (m_subject m)),
      (''department'', JStr (m_department m)), (''semester'', JNum (m_semester m)),
      (''type'', JStr (m_type m)),
      (''year'', (case m_year m of None \<Rightarrow> JNull | Some y \<Rightarrow> JNum y)),
      (''fileUrl'', JStr (m_fileUrl m)), (''fileName'', JStr (m_fileName m)),
      (''uploadedBy'', JId (m_uploadedBy m)), (''uploadedByName'', JStr (m_uploadedByName m)),
      (''likes'', JArr (map JId (m_likes m))), (''downloads'', JNum (m_downloads m)),
      (''createdAt'', JDate (m_createdAt m)), (''updatedAt'', JDate (m_updatedAt m))]"

definition materialView :: "material \<Rightarrow> json" where
  "materialView m = JObj ((''id'', JId (m_id m)) # materialDoc m)"

record uploadBody =
  ub_title :: "string option"
  ub_description :: "string option"
  ub_subject :: "string option"
  ub_department :: "string option"
  ub_semester :: "string option"
  ub_type :: "string option"
  ub_year :: "string option"

record uploadedFile =
  filename :: string
  originalname :: string

definition uploadMaterial ::
  "env \<Rightarrow> state \<Rightarrow> claims \<Rightarrow> uploadBody \<Rightarrow> uploadedFile option \<Rightarrow> objectId \<Rightarrow> date
     \<Rightarrow> state \<times> response" where
  "uploadMaterial env s c b file newId now =
     (case facultyOnly c of
        Some denied \<Rightarrow> (s, denied)
      | None \<Rightarrow>
          (case file of
             None \<Rightarrow> (s, Response 400 (errorBody ''No file uploaded''))
           | Some f \<Rightarrow>
               (case Material_create env (materials s) newId now
                       \<lparr>i_title = ub_title b,
                        i_description = orElse (ub_description b) [],
                        i_subject = ub_subject b,
                        i_department = ub_department b,
                        i_semester =
                          (case ub_semester b of None \<Rightarrow> None | Some t \<Rightarrow> parseInt env t),
                        i_type = ub_type b,
                        i_year = (if truthy (ub_year b)
                                  then Some (parseInt env (orElse (ub_year b) [])) else None),
                        i_fileUrl = ''/uploads/'' @ filename f,
                        i_fileName = originalname f,
                        i_uploadedBy = userId c,
                        i_uploadedByName =
                          (case User_findById (users s) (userId c) of
                             None \<Rightarrow> ''Faculty''
                           | Some u \<Rightarrow> if u_name u = [] then ''Faculty'' else u_name u)\<rparr> of
                  Inl err \<Rightarrow> (s, Response 500 (errorBody (error_message env err)))
                | Inr m \<Rightarrow>
                    (s\<lparr>materials := materials s @ [m]\<rparr>,
                     Response 201
                       (JObj [(''message'', JStr ''Material uploaded successfully!''),
                              (''material'', materialView m)])))))"

text \<open>
  ListMaterials. The handler builds a store query from the parameters that are truthy;
  \<^verbatim>\<open>query.semester = parseInt(semester)\<close> may be \<open>NaN\<close> (\<open>Some None\<close> below). Each
  parameter of \<^verbatim>\<open>req.query\<close> is absent or one string here. The handler does not check
  that: a repeated key or a bracketed key (\<^verbatim>\<open>department[$ne]=x\<close>) reaches it as an
  array or an object, which it hands to the store as it is; such requests are outside
  this record.
\<close>

record listQuery =
  q_department :: "string option"
  q_semester :: "string option"
  q_subject :: "string option"
  q_type :: "string option"
  q_search :: "string option"
  q_limit :: "string option"
  q_page :: "string option"

record mongoQuery =
  mq_department :: "string option"
  mq_semester :: "int option option"
  mq_type :: "string option"
  mq_subject :: "string option"
  mq_or :: "string option"

definition supplied :: "string option \<Rightarrow> string option" where
  "supplied x = (if truthy x then x else None)"

definition buildQuery :: "env \<Rightarrow> listQuery \<Rightarrow> mongoQuery" where
  "buildQuery env q =
     \<lparr>mq_department = supplied (q_department q),
      mq_semester = map_option (parseInt env) (supplied (q_semester q)),
      mq_type = supplied (q_type q),
      mq_subject = supplied (q_subject q),
      mq_or = supplied (q_search q)\<rparr>"

text \<open>
  \<^verbatim>\<open>Material.find(query)\<close>. Mongoose casts the query to the schema first: \<open>NaN\<close> at the
  Number path \<open>semester\<close> is a cast error. The store then compiles each \<^verbatim>\<open>$regex\<close>, and
  a document matches when every condition of the query holds for it.
\<close>

definition compileOpt :: "env \<Rightarrow> string option \<Rightarrow> (string \<Rightarrow> bool) option option" where
  "compileOpt env x =
     (case x of
        None \<Rightarrow> Some None
      | Some p \<Rightarrow> (case regex_i env p of None \<Rightarrow> None | Some t \<Rightarrow> Some (Some t)))"

definition matchesQuery ::
  "mongoQuery \<Rightarrow> (string \<Rightarrow> bool) option \<Rightarrow> (string \<Rightarrow> bool) option \<Rightarrow> material \<Rightarrow> bool" where
  "matchesQuery mq subjectRe searchRe m =
     ((case mq_department mq of None \<Rightarrow> True | Some d \<Rightarrow> m_department m = d)
      \<and> (case mq_semester mq of None \<Rightarrow> True | Some n \<Rightarrow> Some (m_semester m) = n)
      \<and> (case mq_type mq of None \<Rightarrow> True | Some t \<Rightarrow> m_type m = t)
      \<and> (case subjectRe of None \<Rightarrow> True | Some t \<Rightarrow> t (m_subject m))
      \<and> (case searchRe of None \<Rightarrow> True
          | Some t \<Rightarrow> t (m_title m) \<or> t (m_description m) \<or> t (m_subject m)))"

definition Material_find :: "env \<Rightarrow> material list \<Rightarrow> mongoQuery \<Rightarrow> storeError + material list" where
  "Material_find env ms mq =
     (if mq_semester mq = Some None then Inl CastError
      else
        (case (compileOpt env (mq_subject mq), compileOpt env (mq_or mq)) of
           (Some subjectRe, Some searchRe) \<Rightarrow> Inr (filter (matchesQuery mq subjectRe searchRe) ms)
         | _ \<Rightarrow> Inl InvalidRegex))"

text \<open>
  \<^verbatim>\<open>.sort({ createdAt: -1 })\<close>, then the cursor skips and limits (in this order, however
  the calls are chained). The store rejects a negative skip; the driver reads a negative
  limit as its absolute value.
\<close>

definition sortByCreatedAtDesc :: "material list \<Rightarrow> material list" where
  "sortByCreatedAtDesc ms = sort_key (\<lambda>m. - m_createdAt m) ms"

definition skipLimit :: "int \<Rightarrow> int \<Rightarrow> 'a list \<Rightarrow> storeError + 'a list" where
  "skipLimit skip limitNum xs =
     (if skip < 0 then Inl BadSkip else Inr (take (nat \<bar>limitNum\<bar>) (drop (nat skip) xs)))"

definition listMaterials :: "env \<Rightarrow> state \<Rightarrow> listQuery \<Rightarrow> response" where
  "listMaterials env s q =
     (let query = buildQuery env q;
          pageNum = parseIntOr env (q_page q) 1;
          limitNum = parseIntOr env (q_limit q) 100;
          skip = (pageNum - 1) * limitNum
      in case Material_find env (materials s) query of
           Inl err \<Rightarrow> Response 500 (errorBody (error_message env err))
         | Inr found \<Rightarrow>
             (case skipLimit skip limitNum (sortByCreatedAtDesc found) of
                Inl err \<Rightarrow> Response 500 (errorBody (error_message env err))
              | Inr page \<Rightarrow> Response 200 (JArr (map materialView page))))"

definition getMaterial :: "env \<Rightarrow> state \<Rightarrow> idParam \<Rightarrow> response" where
  "getMaterial env s p =
     (case p of
        BadId \<Rightarrow> Response 500 (errorBody (error_message env CastError))
      | ObjId i \<Rightarrow>
          (case Material_findById (materials s) i of
             None \<Rightarrow> Response 404 (errorBody ''Material not found'')
           | Some m \<Rightarrow> Response 200 (materialView m)))"

text \<open>
  ToggleLike: \<^verbatim>\<open>findIndex\<close> looks for the user in the likes array; when found that one
  entry is spliced out (\<^verbatim>\<open>splice(likeIndex, 1)\<close>), otherwise the user is pushed at the end.
\<close>

definition toggleLikes :: "objectId list \<Rightarrow> objectId \<Rightarrow> objectId list" where
  "toggleLikes likes u =
     (case findIndex (\<lambda>likeId. likeId = u) likes of
        Some likeIndex \<Rightarrow> removeAt likeIndex likes
      | None \<Rightarrow> likes @ [u])"

definition toggleLike :: "env \<Rightarrow> state \<Rightarrow> claims \<Rightarrow> idParam \<Rightarrow> date \<Rightarrow> state \<times> response" where
  "toggleLike env s c p now =
     (case p of
        BadId \<Rightarrow> (s, Response 500 (errorBody (error_message env CastError)))
      | ObjId i \<Rightarrow>
          (case Material_findById (materials s) i of
             None \<Rightarrow> (s, Response 404 (errorBody ''Material not found''))
           | Some m \<Rightarrow>
               (let m' = m\<lparr>m_likes := toggleLikes (m_likes m) (userId c), m_updatedAt := now\<rparr>
                in (s\<lparr>materials := Material_save (materials s) m'\<rparr>,
                    Response 200
                      (JObj [(''message'', JStr ''Like updated''),
                             (''likes'', JNum (int (length (m_likes m')))),
                             (''isLiked'', JBool (list_ex (\<lambda>likeId. likeId = userId c)
                                                         (m_likes m')))])))))"

text \<open>RecordDownload: \<^verbatim>\<open>material.downloads = (material.downloads || 0) + 1\<close>.\<close>

definition recordDownload :: "env \<Rightarrow> state \<Rightarrow> idParam \<Rightarrow> date \<Rightarrow> state \<times> response" where
  "recordDownload env s p now =
     (case p of
        BadId \<Rightarrow> (s, Response 500 (errorBody (error_message env CastError)))
      | ObjId i \<Rightarrow>
          (case Material_findById (materials s) i of
             None \<Rightarrow> (s, Response 404 (errorBody ''Material not found''))
           | Some m \<Rightarrow>
               (let m' = m\<lparr>m_downloads := (if m_downloads m = 0 then 0 else m_downloads m) + 1,
                            m_updatedAt := now\<rparr>
                in (s\<lparr>materials := Material_save (materials s) m'\<rparr>,
                    Response 200
                      (JObj [(''message'', JStr ''Download count updated''),
                             (''downloads'', JNum (m_downloads m'))])))))"

definition deleteMaterial :: "env \<Rightarrow> state \<Rightarrow> claims \<Rightarrow> idParam \<Rightarrow> state \<times> response" where
  "deleteMaterial env s c p =
     (case facultyOnly c of
        Some denied \<Rightarrow> (s, denied)
      | None \<Rightarrow>
          (case p of
             BadId \<Rightarrow> (s, Response 500 (errorBody (error_message env CastError)))
           | ObjId i \<Rightarrow>
               (case Material_findById (materials s) i of
                  None \<Rightarrow> (s, Response 404 (errorBody ''Material not found''))
                | Some m \<Rightarrow>
                    (s\<lparr>materials := Material_findByIdAndDelete (materials s) i\<rparr>,
                     Response 200 (JObj [(''message'', JStr ''Material deleted successfully'')])))))"

subsection \<open>Chat\<close>

text \<open>The canned responses; characters outside ASCII are written as their UTF-8 bytes.\<close>

definition pyqResponse :: string where
  "pyqResponse = ''You can find previous year question papers in the Materials section. Filter by \"PYQ\" type to see all available papers. Would you like me to help you find papers for a specific subject?''"

definition notesResponse :: string where
  "notesResponse = ''Study notes are available in the Materials section. You can filter by subject, semester, and department to find relevant notes for your courses. Just click on Materials in the navigation menu!''"

definition syllabusResponse :: string where
  "syllabusResponse = ''Syllabus documents are available in the Materials section. Filter by \"Syllabus\" type to view the curriculum for different courses. This will help you plan your studies better!''"

definition examResponse :: string where
  "examResponse = ''I can help you with exam preparation! We have notes, PYQs, and reference materials. What subject are you preparing for? I can guide you to the right materials.''"

definition downloadResponse :: string where
  "downloadResponse = ''To download materials: 1) Go to the Materials page, 2) Find the document you need using filters or search, 3) Click the green \"Download\" button. Make sure you're logged in!''"

definition uploadResponse :: string where
  "uploadResponse = ''Only faculty members can upload materials. If you're a faculty member, use the Upload button in the navigation menu to share notes, PYQs, or other study materials with students.''"

definition greetingResponse :: string where
  "greetingResponse = ''Hello! '' @ [CHR 0xF0, CHR 0x9F, CHR 0x91, CHR 0x8B]
     @ '' I'm your AI study assistant. I can help you find study materials, PYQs, and answer questions about using the portal. What would you like to know?''"

definition thanksResponse :: string where
  "thanksResponse = ''You're welcome! '' @ [CHR 0xF0, CHR 0x9F, CHR 0x98, CHR 0x8A]
     @ '' Feel free to ask if you need any other help with your studies or using the portal.''"

definition bullet :: string where
  "bullet = [CHR 0xE2, CHR 0x80, CHR 0xA2]"

definition menuResponse :: string where
  "menuResponse = ''I'm here to help with your academic queries! You can ask me about:\<newline>''
     @ bullet @ '' Finding study materials and notes\<newline>''
     @ bullet @ '' Previous year question papers (PYQs)\<newline>''
     @ bullet @ '' Exam preparation tips\<newline>''
     @ bullet @ '' How to download or upload materials\<newline>''
     @ bullet @ '' Using the portal features\<newline>\<newline>What would you like to know?''"

definition chatResponse :: "env \<Rightarrow> string \<Rightarrow> string" where
  "chatResponse env message =
     (let lowerMessage = toLowerCase env message in
      if includes_str lowerMessage ''pyq'' \<or> includes_str lowerMessage ''previous year''
         \<or> includes_str lowerMessage ''question paper'' then pyqResponse
      else if includes_str lowerMessage ''notes'' \<or> includes_str lowerMessage ''study material''
        then notesResponse
      else if includes_str lowerMessage ''syllabus'' then syllabusResponse
      else if includes_str lowerMessage ''exam'' \<or> includes_str lowerMessage ''preparation''
        then examResponse
      else if includes_str lowerMessage ''download''
              \<or> includes_str lowerMessage ''how to download'' then downloadResponse
      else if includes_str lowerMessage ''upload'' then uploadResponse
      else if includes_str lowerMessage ''hello'' \<or> includes_str lowerMessage ''hi''
              \<or> includes_str lowerMessage ''hey'' then greetingResponse
      else if includes_str lowerMessage ''thank'' then thanksResponse
      else menuResponse)"

definition chat ::
  "env \<Rightarrow> state \<Rightarrow> claims \<Rightarrow> string option \<Rightarrow> objectId \<Rightarrow> date \<Rightarrow> state \<times> response" where
  "chat env s c message newId now =
     (if \<not> truthy message then (s, Response 400 (errorBody ''Message is required''))
      else
        (let msg = orElse message [];
             response = chatResponse env msg
         in case Chat_create (chats s) newId now (userId c) msg response of
              Inl err \<Rightarrow> (s, Response 500 (errorBody (error_message env err)))
            | Inr entry \<Rightarrow>
                (s\<lparr>chats := chats s @ [entry]\<rparr>,
                 Response 200 (JObj [(''response'', JStr response)]))))"

definition chatView :: "chatEntry \<Rightarrow> json" where
  "chatView ch =
     JObj [(''id'', JId (c_id ch)), (''_id'', JId (c_id ch)), (''userId'', JId (c_userId ch)),
           (''message'', JStr (c_message ch)), (''response'', JStr (c_response ch)),
           (''createdAt'', JDate (c_createdAt ch)), (''updatedAt'', JDate (c_updatedAt ch))]"

definition chatHistory :: "state \<Rightarrow> claims \<Rightarrow> response" where
  "chatHistory s c =
     Response 200
       (JArr (map chatView
          (take 50 (sort_key (\<lambda>ch. - c_createdAt ch)
                      (filter (\<lambda>ch. c_userId ch = userId c) (chats s))))))"

subsection \<open>Dashboard and Stats\<close>

text \<open>
  Dashboard reads \<^verbatim>\<open>Material.find().lean()\<close>, with no sort, and takes
  \<^verbatim>\<open>materials.slice(0, 5)\<close> of it for the recent materials.
\<close>

definition totalDownloads :: "material list \<Rightarrow> int" where
  "totalDownloads ms =
     foldl (\<lambda>sum m. sum + (if m_downloads m = 0 then 0 else m_downloads m)) 0 ms"

definition recentView :: "material \<Rightarrow> json" where
  "recentView m =
     JObj [(''id'', JId (m_id m)), (''title'', JStr (m_title m)),
           (''subject'', JStr (m_subject m)), (''type'', JStr (m_type m)),
           (''createdAt'', JDate (m_createdAt m))]"

definition recentMaterials :: "state \<Rightarrow> material list" where
  "recentMaterials s = take 5 (materials s)"

definition dashboard :: "state \<Rightarrow> response" where
  "dashboard s =
     Response 200
       (JObj [(''stats'',
               JObj [(''totalMaterials'', JNum (int (length (materials s)))),
                     (''totalPYQs'',
                        JNum (int (length (filter (\<lambda>m. m_type m = ''pyq'') (materials s))))),
                     (''totalDownloads'', JNum (totalDownloads (materials s))),
                     (''totalStudents'',
                        JNum (int (User_countDocuments_role (users s) ''student''))),
                     (''totalFaculty'',
                        JNum (int (User_countDocuments_role (users s) ''faculty'')))]),
              (''recentMaterials'', JArr (map recentView (recentMaterials s)))])"

definition stats :: "state \<Rightarrow> response" where
  "stats s =
     Response 200
       (JObj [(''totalMaterials'', JNum (int (length (materials s)))),
              (''totalStudents'', JNum (int (User_countDocuments_role (users s) ''student''))),
              (''totalFaculty'', JNum (int (User_countDocuments_role (users s) ''faculty''))),
              (''totalDownloads'', JNum (totalDownloads (materials s)))])"

subsection \<open>The server as a transition system\<close>

datatype request =
    Register registerBody objectId date
  | Login loginBody
  | GetSelf claims
  | UploadMaterial claims uploadBody "uploadedFile option" objectId date
  | ListMaterials claims listQuery
  | GetMaterial claims idParam
  | ToggleLike claims idParam date
  | RecordDownload claims idParam date
  | DeleteMaterial claims idParam
  | Chat claims "string option" objectId date
  | ChatHistory claims
  | Dashboard claims
  | Stats claims

fun handle :: "env \<Rightarrow> state \<Rightarrow> request \<Rightarrow> state \<times> response" where
  "handle env s (Register b newId now) = register env s b newId now"
| "handle env s (Login b) = (s, login env s b)"
| "handle env s (GetSelf c) = (s, getSelf s c)"
| "handle env s (UploadMaterial c b file newId now) = uploadMaterial env s c b file newId now"
| "handle env s (ListMaterials c q) = (s, listMaterials env s q)"
| "handle env s (GetMaterial c p) = (s, getMaterial env s p)"
| "handle env s (ToggleLike c p now) = toggleLike env s c p now"
| "handle env s (RecordDownload c p now) = recordDownload env s p now"
| "handle env s (DeleteMaterial c p) = deleteMaterial env s c p"
| "handle env s (Chat c message newId now) = chat env s c message newId now"
| "handle env s (ChatHistory c) = (s, chatHistory s c)"
| "handle env s (Dashboard c) = (s, dashboard s)"
| "handle env s (Stats c) = (s, stats s)"

fun run :: "env \<Rightarrow> state \<Rightarrow> request list \<Rightarrow> state" where
  "run env s [] = s"
| "run env s (r # rs) = run env (fst (handle env s r)) rs"

section \<open>What the specification says, as definitions\<close>

text \<open>
  The chat responder as the specification describes it: keyword groups in priority order,
  the response of the first group one of whose keywords occurs, else the menu.
\<close>

definition keywordGroups :: "(string list \<times> string) list" where
  "keywordGroups =
     [([''pyq'', ''previous year'', ''question paper''], pyqResponse),
      ([''notes'', ''study material''], notesResponse),
      ([''syllabus''], syllabusResponse),
      ([''exam'', ''preparation''], examResponse),
      ([''download''], downloadResponse),
      ([''upload''], uploadResponse),
      ([''hello'', ''hi'', ''hey''], greetingResponse),
      ([''thank''], thanksResponse)]"

fun firstMatch :: "string \<Rightarrow> (string list \<times> string) list \<Rightarrow> string" where
  "firstMatch lowered [] = menuResponse"
| "firstMatch lowered ((keywords, canned) # groups) =
     (if list_ex (includes_str lowered) keywords then canned else firstMatch lowered groups)"





text \<open>
  The characters that mean something other than themselves in a regular expression; a
  pattern without them is literal text.
\<close>

definition metaChars :: string where
  "metaChars = [CHR 0x5C] @ ''^$.|?*+()[]{}''"



text \<open>The five most recently created materials, newest first.\<close>

definition fiveMostRecent :: "state \<Rightarrow> material list" where
  "fiveMostRecent s = take 5 (sortByCreatedAtDesc (materials s))"

text \<open>Keys of a JSON object, a field of it, and every key at any depth of a value.\<close>

fun jkeys :: "json \<Rightarrow> string list" where
  "jkeys (JObj kvs) = map fst kvs"
| "jkeys _ = []"

fun jfield :: "string \<Rightarrow> json \<Rightarrow> json option" where
  "jfield k (JObj kvs) = map_of kvs k"
| "jfield k _ = None"

fun allKeys :: "json \<Rightarrow> string list" where
  "allKeys (JObj kvs) = map fst kvs @ concat (map (\<lambda>kv. allKeys (snd kv)) kvs)"
| "allKeys (JArr vs) = concat (map allKeys vs)"
| "allKeys _ = []"

text \<open>
  The invariants of the store: \<open>_id\<close> is unique in each collection, and no user occurs
  twice in the likes of a material.
\<close>

definition wellFormed :: "state \<Rightarrow> bool" where
  "wellFormed s =
     (distinct (map u_id (users s)) \<and> distinct (map m_id (materials s))
      \<and> distinct (map c_id (chats s))
      \<and> list_all (\<lambda>m. distinct (m_likes m)) (materials s))"

definition emptyState :: state where
  "emptyState = \<lparr>users = [], materials = [], chats = []\<rparr>"

text \<open>No request of the list has the store create a material under the \<open>_id\<close> \<open>i\<close>.\<close>

fun createsMaterial :: "objectId \<Rightarrow> request \<Rightarrow> bool" where
  "createsMaterial i (UploadMaterial c b file newId now) = (newId = i)"
| "createsMaterial i _ = False"


definition likesOf :: "state \<Rightarrow> objectId \<Rightarrow> objectId list option" where
  "likesOf s i = map_option m_likes (Material_findById (materials s) i)"

section \<open>Example data\<close>

text \<open>
  The examples are of ASCII text, on which the string methods are these:
  \<^verbatim>\<open>toLowerCase\<close> maps the letters A to Z to a to z, and the white space that
  \<^verbatim>\<open>trim\<close> and \<^verbatim>\<open>parseInt\<close> remove is space, tab, line feed, vertical tab, form feed
  and carriage return. The store folds the case of ASCII text in the same way.
\<close>

definition upperLetters :: string where
  "upperLetters = ''ABCDEFGHIJKLMNOPQRSTUVWXYZ''"

definition lowerLetters :: string where
  "lowerLetters = ''abcdefghijklmnopqrstuvwxyz''"

definition toLowerChar :: "char \<Rightarrow> char" where
  "toLowerChar c =
     (case map_of (zip upperLetters lowerLetters) c of Some l \<Rightarrow> l | None \<Rightarrow> c)"

definition asciiLowerCase :: "string \<Rightarrow> string" where
  "asciiLowerCase s = map toLowerChar s"

definition isSpace :: "char \<Rightarrow> bool" where
  "isSpace c = (c \<in> set [CHR 0x20, CHR 0x09, CHR 0x0A, CHR 0x0B, CHR 0x0C, CHR 0x0D])"

definition asciiTrimStart :: "string \<Rightarrow> string" where
  "asciiTrimStart s = dropWhile isSpace s"

definition asciiTrim :: "string \<Rightarrow> string" where
  "asciiTrim s = rev (dropWhile isSpace (rev (dropWhile isSpace s)))"

text \<open>
  A regular-expression engine for patterns of ordinary characters and the dot, which
  stands for any character but a line feed; it accepts no other pattern.
\<close>

fun matchHere :: "string \<Rightarrow> string \<Rightarrow> bool" where
  "matchHere [] text = True"
| "matchHere (p # ps) [] = False"
| "matchHere (p # ps) (c # cs) =
     ((if p = CHR ''.'' then c \<noteq> CHR 0x0A else toLowerChar p = toLowerChar c)
      \<and> matchHere ps cs)"

fun matchAnywhere :: "string \<Rightarrow> string \<Rightarrow> bool" where
  "matchAnywhere p [] = matchHere p []"
| "matchAnywhere p (c # cs) = (matchHere p (c # cs) \<or> matchAnywhere p cs)"

definition dotRegex :: "string \<Rightarrow> (string \<Rightarrow> bool) option" where
  "dotRegex p =
     (if list_all (\<lambda>c. c = CHR ''.'' \<or> c \<notin> set metaChars) p then Some (matchAnywhere p)
      else None)"

definition env0 :: env where
  "env0 = \<lparr>toLowerCase = asciiLowerCase, trim = asciiTrim, trimStart = asciiTrimStart,
           bcrypt_hash = (\<lambda>pw. ''$2a$10$'' @ pw),
           bcrypt_compare = (\<lambda>pw h. h = ''$2a$10$'' @ pw),
           jwt_sign = (\<lambda>c. ''jwt.'' @ email c),
           regex_i = dotRegex, caseFold = asciiLowerCase,
           error_message = (\<lambda>e. ''store error'')\<rparr>"

definition facultyBody :: registerBody where
  "facultyBody = \<lparr>rb_name = Some ''Prof'', rb_email = Some ''f@x.com'',
                  rb_password = Some ''pw1'', rb_role = Some ''faculty'',
                  rb_department = None, rb_semester = None\<rparr>"

definition studentBody :: registerBody where
  "studentBody = \<lparr>rb_name = Some ''Stu'', rb_email = Some ''s@x.com'',
                  rb_password = Some ''pw2'', rb_role = Some ''student'',
                  rb_department = Some ''CS'', rb_semester = Some ''3''\<rparr>"

definition facultyClaims :: claims where
  "facultyClaims = \<lparr>userId = 1, role = ''faculty'', email = ''f@x.com''\<rparr>"

definition studentClaims :: claims where
  "studentClaims = \<lparr>userId = 2, role = ''student'', email = ''s@x.com''\<rparr>"

definition calcUpload :: uploadBody where
  "calcUpload = \<lparr>ub_title = Some ''Calc Notes'', ub_description = None,
                 ub_subject = Some ''Math'', ub_department = Some ''CS'',
                 ub_semester = Some ''2'', ub_type = Some ''notes'', ub_year = None\<rparr>"

definition calcFile :: uploadedFile where
  "calcFile = \<lparr>filename = ''1-calc.pdf'', originalname = ''calc.pdf''\<rparr>"

definition calcNotes :: "objectId \<Rightarrow> date \<Rightarrow> material" where
  "calcNotes i t =
     \<lparr>m_id = i, m_title = ''Calc Notes'', m_description = [], m_subject = ''Math'',
      m_department = ''CS'', m_semester = 2, m_type = ''notes'', m_year = None,
      m_fileUrl = ''/uploads/1-calc.pdf'', m_fileName = ''calc.pdf'', m_uploadedBy = 1,
      m_uploadedByName = ''Prof'', m_likes = [], m_downloads = 0,
      m_createdAt = t, m_updatedAt = t\<rparr>"

text \<open>
  A faculty member registers and uploads six materials, one after the other, at the
  times 101 to 106 under the identifiers 11 to 16.
\<close>

definition sixUploads :: "request list" where
  "sixUploads =
     Register facultyBody 1 100
     # map (\<lambda>k. UploadMaterial facultyClaims calcUpload (Some calcFile) (10 + k) (100 + int k))
         [1, 2, 3, 4, 5, 6]"

definition sixState :: state where
  "sixState = run env0 emptyState sixUploads"

definition oneState :: state where
  "oneState = run env0 emptyState
     [Register facultyBody 1 100,
      UploadMaterial facultyClaims calcUpload (Some calcFile) 11 101,
      Register studentBody 2 102]"

definition emptyQuery :: listQuery where
  "emptyQuery = \<lparr>q_department = None, q_semester = None, q_subject = None, q_type = None,
                 q_search = None, q_limit = None, q_page = None\<rparr>"

text \<open>The body of a ToggleLike answer: the like count and the flag.\<close>

definition likeResponse :: "nat \<Rightarrow> bool \<Rightarrow> response" where
  "likeResponse n liked =
     Response 200 (JObj [(''message'', JStr ''Like updated''), (''likes'', JNum (int n)),
                         (''isLiked'', JBool liked)])"

text \<open>The student has liked the material once.\<close>

definition likedState :: state where
  "likedState = run env0 oneState [ToggleLike studentClaims (ObjId 11) 200]"

text \<open>The student has toggled the like a second time.\<close>

definition unlikedState :: state where
  "unlikedState = run env0 likedState [ToggleLike studentClaims (ObjId 11) 201]"

text \<open>
  After the faculty member has registered; and a second registration under the same
  email in another case, with white space around it and another password.
\<close>

definition facultyState :: state where
  "facultyState = run env0 emptyState [Register facultyBody 1 100]"

definition dupBody :: registerBody where
  "dupBody = \<lparr>rb_name = Some ''Other'', rb_email = Some ''  F@X.com '',
              rb_password = Some ''different'', rb_role = Some ''student'',
              rb_department = None, rb_semester = None\<rparr>"

text \<open>
  The same without a password; and a registration without a name followed by one with a
  name under the same email.
\<close>

definition noPasswordBody :: registerBody where
  "noPasswordBody = dupBody\<lparr>rb_password := Some []\<rparr>"

definition namelessBody :: registerBody where
  "namelessBody = facultyBody\<lparr>rb_name := None\<rparr>"

definition facultyLogin :: loginBody where
  "facultyLogin = \<lparr>lb_email = Some ''F@x.com'', lb_password = Some ''pw1''\<rparr>"


definition badSemesterQuery :: listQuery where
  "badSemesterQuery = emptyQuery\<lparr>q_semester := Some ''abc''\<rparr>"


section \<open>Properties\<close>

subsection \<open>Chat\<close>

lemma includes_str_sublist: "includes_str s p \<longleftrightarrow> sublist p s"
  by (induction s) (auto simp: sublist_Cons_right)

lemma includes_str_appendD: "includes_str s (a @ b) \<Longrightarrow> includes_str s b"
  unfolding includes_str_sublist
  by (metis sublist_append_leftI sublist_order.dual_order.trans)

lemma how_to_download: "includes_str s ''how to download'' \<Longrightarrow> includes_str s ''download''"
  using includes_str_appendD [of s "''how to ''" "''download''"] by simp

lemma chatResponse_firstMatch:
  "chatResponse env message = firstMatch (toLowerCase env message) keywordGroups"
  using how_to_download [of "toLowerCase env message"]
  by (simp add: chatResponse_def keywordGroups_def Let_def)

lemma chat_persists:
  assumes "message \<noteq> []" and "newId \<notin> set (map c_id (chats s))"
  shows "chat env s c (Some message) newId now =
           (s\<lparr>chats := chats s @
                [\<lparr>c_id = newId, c_userId = userId c, c_message = message,
                  c_response = chatResponse env message, c_createdAt = now,
                  c_updatedAt = now\<rparr>]\<rparr>,
            Response 200 (JObj [(''response'', JStr (chatResponse env message))]))"
proof -
  have "chatResponse env message \<noteq> []"
    by (simp add: chatResponse_def Let_def pyqResponse_def notesResponse_def syllabusResponse_def
        examResponse_def downloadResponse_def uploadResponse_def greetingResponse_def
        thanksResponse_def menuResponse_def)
  with assms show ?thesis
    by (simp add: chat_def Chat_create_def orElse_def Let_def)
qed

lemma chat_without_message:
  "\<not> truthy message \<Longrightarrow>
     chats (fst (chat env s c message newId now)) = chats s
     \<and> status (snd (chat env s c message newId now)) = 400"
  by (simp add: chat_def)

text \<open>
  C8, as the code has it: the chat responder is a function of the lower-cased message:
  it is the response of the first keyword group, in the fixed priority order, one of
  whose keywords occurs in the lower-cased message, and the menu when none occurs. A chat
  request whose message is a string that is not empty, for which the store creates the
  entry under a fresh \<open>_id\<close>, appends exactly one chat entry, holding the message and that
  response, and answers with the response. A chat request whose message is absent or
  empty is answered 400 and appends nothing.
\<close>

theorem chat_responder:
  "chatResponse env message = firstMatch (toLowerCase env message) keywordGroups
   \<and> (message \<noteq> [] \<and> newId \<notin> set (map c_id (chats s)) \<longrightarrow>
        chat env s c (Some message) newId now =
          (s\<lparr>chats := chats s @
                [\<lparr>c_id = newId, c_userId = userId c, c_message = message,
                  c_response = chatResponse env message, c_createdAt = now,
                  c_updatedAt = now\<rparr>]\<rparr>,
           Response 200 (JObj [(''response'', JStr (chatResponse env message))])))
   \<and> (\<not> truthy msg \<longrightarrow>
        chats (fst (chat env s c msg newId now)) = chats s
        \<and> status (snd (chat env s c msg newId now)) = 400)"
  using chatResponse_firstMatch chat_persists chat_without_message by blast

theorem chat_responder_witness:
  "''Where are the PYQ notes?'' \<noteq> [] \<and> 5 \<notin> set (map c_id (chats oneState))
   \<and> chatResponse env0 ''Where are the PYQ notes?'' = pyqResponse
   \<and> chat env0 oneState studentClaims (Some ''Where are the PYQ notes?'') 5 300 =
         (oneState\<lparr>chats := chats oneState @
             [\<lparr>c_id = 5, c_userId = userId studentClaims, c_message = ''Where are the PYQ notes?'',
               c_response = pyqResponse, c_createdAt = 300, c_updatedAt = 300\<rparr>]\<rparr>,
          Response 200 (JObj [(''response'', JStr pyqResponse)]))
   \<and> \<not> truthy None
   \<and> chats (fst (chat env0 oneState studentClaims None 5 300)) = chats oneState"
proof -
  have ne: "''Where are the PYQ notes?'' \<noteq> []" by simp
  have fresh: "5 \<notin> set (map c_id (chats oneState))" by code_simp
  have first: "firstMatch (toLowerCase env0 ''Where are the PYQ notes?'') keywordGroups
                 = pyqResponse"
    by code_simp
  have none: "\<not> truthy None" by simp
  show ?thesis
    using chat_responder [of env0 "''Where are the PYQ notes?''" 5 oneState studentClaims 300 None]
      ne fresh first none
    by simp
qed

text \<open>
  Not every invocation appends a chat entry: the request with the empty message is
  answered 400 and the chat collection, empty before, is empty after.
\<close>

theorem chat_responder_counterexample:
  "chats oneState = []
   \<and> chat env0 oneState studentClaims (Some []) 5 300
       = (oneState, Response 400 (errorBody ''Message is required''))
   \<and> chats (fst (chat env0 oneState studentClaims (Some []) 5 300)) = []"
  by code_simp

text \<open>
  C10: a chat request whose message is absent or empty is answered 400 with
  \<open>Message is required\<close>, and the database, so the chat collection, is unchanged.
\<close>

theorem chat_requires_message:
  "\<not> truthy message \<Longrightarrow>
     chat env s c message newId now = (s, Response 400 (errorBody ''Message is required''))"
  by (simp add: chat_def)

theorem chat_requires_message_witness:
  "\<not> truthy (Some []) \<and> \<not> truthy None
   \<and> chat env0 oneState studentClaims (Some []) 5 300
       = (oneState, Response 400 (errorBody ''Message is required''))
   \<and> chat env0 oneState studentClaims None 5 300
       = (oneState, Response 400 (errorBody ''Message is required''))"
  using chat_requires_message [of "Some []" env0 oneState studentClaims 5 300]
    chat_requires_message [of None env0 oneState studentClaims 5 300]
  by simp

subsection \<open>Lists: first index, save, delete\<close>

lemma findIndex_None_iff: "findIndex P xs = None \<longleftrightarrow> (\<forall>x\<in>set xs. \<not> P x)"
  by (induction xs) (auto split: option.splits)

lemma removeAt_0: "removeAt 0 (x # xs) = xs"
  by (simp add: removeAt_def)

lemma removeAt_Suc: "removeAt (Suc k) (x # xs) = x # removeAt k xs"
  by (simp add: removeAt_def)

lemma findIndex_remove1:
  "(case findIndex (\<lambda>x. x = u) xs of None \<Rightarrow> xs | Some k \<Rightarrow> removeAt k xs) = remove1 u xs"
  by (induction xs) (auto simp: removeAt_0 removeAt_Suc split: option.splits)

lemma toggleLikes_remove1:
  "toggleLikes likes u = (if u \<in> set likes then remove1 u likes else likes @ [u])"
proof (cases "findIndex (\<lambda>likeId. likeId = u) likes")
  case None
  then have "u \<notin> set likes"
    using findIndex_None_iff [of "\<lambda>likeId. likeId = u" likes] by auto
  then show ?thesis by (simp add: toggleLikes_def None)
next
  case (Some k)
  then have "u \<in> set likes"
    using findIndex_None_iff [of "\<lambda>likeId. likeId = u" likes] by auto
  moreover have "removeAt k likes = remove1 u likes"
    using findIndex_remove1 [where u = u and xs = likes] Some by simp
  ultimately show ?thesis by (simp add: toggleLikes_def Some)
qed

lemma distinct_toggleLikes: "distinct likes \<Longrightarrow> distinct (toggleLikes likes u)"
  by (simp add: toggleLikes_remove1)

lemma set_toggleLikes:
  "distinct likes \<Longrightarrow>
     set (toggleLikes likes u) = (if u \<in> set likes then set likes - {u} else insert u (set likes))"
  by (simp add: toggleLikes_remove1)

lemma toggleLikes_member: "distinct likes \<Longrightarrow> u \<in> set (toggleLikes likes u) \<longleftrightarrow> u \<notin> set likes"
  by (simp add: set_toggleLikes)

lemma length_toggleLikes:
  "length (toggleLikes likes u) = (if u \<in> set likes then length likes - 1 else length likes + 1)"
  by (simp add: toggleLikes_remove1 length_remove1)

lemma Material_save_Cons:
  "Material_save (x # xs) m = (if m_id x = m_id m then m # xs else x # Material_save xs m)"
  by (simp add: Material_save_def split: option.splits)

lemma Material_save_Nil: "Material_save [] m = []"
  by (simp add: Material_save_def)

lemma Material_delete_Cons:
  "Material_findByIdAndDelete (x # xs) i =
     (if m_id x = i then xs else x # Material_findByIdAndDelete xs i)"
  by (simp add: Material_findByIdAndDelete_def removeAt_0 removeAt_Suc split: option.splits)

lemma Material_delete_Nil: "Material_findByIdAndDelete [] i = []"
  by (simp add: Material_findByIdAndDelete_def)

lemma findById_Nil: "Material_findById [] i = None"
  by (simp add: Material_findById_def)

lemma findById_Cons:
  "Material_findById (x # xs) i = (if m_id x = i then Some x else Material_findById xs i)"
  by (simp add: Material_findById_def)

lemmas store_simps = Material_save_Cons Material_save_Nil Material_delete_Cons
  Material_delete_Nil findById_Nil findById_Cons

lemma findById_id: "Material_findById ms i = Some m \<Longrightarrow> m_id m = i"
  by (induction ms) (auto simp: store_simps split: if_splits)

lemma findById_mem: "Material_findById ms i = Some m \<Longrightarrow> m \<in> set ms"
  by (induction ms) (auto simp: store_simps split: if_splits)

lemma findById_None_iff: "Material_findById ms i = None \<longleftrightarrow> i \<notin> set (map m_id ms)"
  by (induction ms) (auto simp: store_simps)


lemma ids_save: "map m_id (Material_save ms m) = map m_id ms"
  by (induction ms) (auto simp: store_simps)

lemma findById_save_same:
  "Material_findById ms (m_id m) \<noteq> None \<Longrightarrow> Material_findById (Material_save ms m) (m_id m) = Some m"
  by (induction ms) (auto simp: store_simps)


lemma set_save:
  "set (Material_save ms m) \<subseteq> insert m (set ms)"
  by (induction ms) (auto simp: store_simps)

lemma ids_delete_subset: "set (map m_id (Material_findByIdAndDelete ms i)) \<subseteq> set (map m_id ms)"
  by (induction ms) (auto simp: store_simps)

lemma set_delete_subset: "set (Material_findByIdAndDelete ms i) \<subseteq> set ms"
  by (induction ms) (auto simp: store_simps)

lemma distinct_delete:
  "distinct (map m_id ms) \<Longrightarrow> distinct (map m_id (Material_findByIdAndDelete ms i))"
  using ids_delete_subset by (induction ms) (fastforce simp: store_simps)+

lemma findById_delete_same:
  "distinct (map m_id ms) \<Longrightarrow> Material_findById (Material_findByIdAndDelete ms i) i = None"
  by (induction ms) (auto simp: store_simps findById_None_iff)


subsection \<open>What one request does to the materials\<close>

lemma Material_create_Inr:
  "Material_create env ms newId now i = Inr m \<Longrightarrow>
     m_id m = newId \<and> newId \<notin> set (map m_id ms) \<and> m_likes m = [] \<and> m_downloads m = 0"
  by (auto simp: Material_create_def split: option.splits if_splits prod.splits)

lemma materials_register: "materials (fst (register env s b newId now)) = materials s"
  by (auto simp: register_def split: option.splits sum.splits)

lemma materials_chat: "materials (fst (chat env s c message newId now)) = materials s"
  by (auto simp: chat_def Let_def split: sum.splits)

lemma materials_uploadMaterial:
  "materials (fst (uploadMaterial env s c b file newId now)) = materials s
   \<or> (\<exists>m. m_id m = newId \<and> newId \<notin> set (map m_id (materials s)) \<and> m_likes m = []
          \<and> materials (fst (uploadMaterial env s c b file newId now)) = materials s @ [m])"
  by (auto simp: uploadMaterial_def split: option.splits sum.splits dest: Material_create_Inr)

lemma materials_toggleLike:
  "materials (fst (toggleLike env s c p now)) = materials s
   \<or> (\<exists>m m'. Material_findById (materials s) (m_id m') = Some m
          \<and> m_downloads m' = m_downloads m
          \<and> m_likes m' = toggleLikes (m_likes m) (userId c)
          \<and> materials (fst (toggleLike env s c p now)) = Material_save (materials s) m')"
proof (cases p)
  case BadId
  then show ?thesis by (simp add: toggleLike_def)
next
  case (ObjId i)
  show ?thesis
  proof (cases "Material_findById (materials s) i")
    case None
    with ObjId show ?thesis by (simp add: toggleLike_def)
  next
    case (Some m)
    then have "m_id m = i" by (rule findById_id)
    with ObjId Some show ?thesis
      by (intro disjI2 exI [of _ m]
          exI [of _ "m\<lparr>m_likes := toggleLikes (m_likes m) (userId c), m_updatedAt := now\<rparr>"])
        (simp add: toggleLike_def Let_def)
  qed
qed

lemma materials_recordDownload:
  "materials (fst (recordDownload env s p now)) = materials s
   \<or> (\<exists>m m'. Material_findById (materials s) (m_id m') = Some m
          \<and> m_downloads m' = m_downloads m + 1
          \<and> m_likes m' = m_likes m
          \<and> materials (fst (recordDownload env s p now)) = Material_save (materials s) m')"
proof (cases p)
  case BadId
  then show ?thesis by (simp add: recordDownload_def)
next
  case (ObjId i)
  show ?thesis
  proof (cases "Material_findById (materials s) i")
    case None
    with ObjId show ?thesis by (simp add: recordDownload_def)
  next
    case (Some m)
    then have "m_id m = i" by (rule findById_id)
    with ObjId Some show ?thesis
      by (intro disjI2 exI [of _ m]
          exI [of _ "m\<lparr>m_downloads := (if m_downloads m = 0 then 0 else m_downloads m) + 1,
                        m_updatedAt := now\<rparr>"])
        (simp add: recordDownload_def Let_def)
  qed
qed

lemma materials_deleteMaterial:
  "materials (fst (deleteMaterial env s c p)) = materials s
   \<or> (\<exists>i. materials (fst (deleteMaterial env s c p)) = Material_findByIdAndDelete (materials s) i)"
  by (auto simp: deleteMaterial_def split: option.splits idParam.splits)

text \<open>The four ways in which a request changes the collection of materials.\<close>

lemma materials_handle:
  "materials (fst (handle env s r)) = materials s
   \<or> (\<exists>m. createsMaterial (m_id m) r \<and> m_id m \<notin> set (map m_id (materials s)) \<and> m_likes m = []
          \<and> materials (fst (handle env s r)) = materials s @ [m])
   \<or> (\<exists>m m'. Material_findById (materials s) (m_id m') = Some m
          \<and> m_downloads m \<le> m_downloads m'
          \<and> (distinct (m_likes m) \<longrightarrow> distinct (m_likes m'))
          \<and> materials (fst (handle env s r)) = Material_save (materials s) m')
   \<or> (\<exists>i. materials (fst (handle env s r)) = Material_findByIdAndDelete (materials s) i)"
proof (cases r)
  case (Register b newId now)
  then show ?thesis by (simp add: materials_register)
next
  case (UploadMaterial c b f newId now)
  then show ?thesis using materials_uploadMaterial [of env s c b f newId now] by auto
next
  case (ToggleLike c p now)
  then show ?thesis
    using materials_toggleLike [of env s c p now] distinct_toggleLikes by fastforce
next
  case (RecordDownload c p now)
  then show ?thesis using materials_recordDownload [of env s p now] by fastforce
next
  case (DeleteMaterial c p)
  then show ?thesis using materials_deleteMaterial [of env s c p] by auto
next
  case (Chat c message newId now)
  then show ?thesis by (simp add: materials_chat)
qed simp_all

lemma handle_keeps_absent:
  assumes "i \<notin> set (map m_id (materials s))" and "\<not> createsMaterial i r"
  shows "i \<notin> set (map m_id (materials (fst (handle env s r))))"
  using materials_handle [of env s r] assms ids_delete_subset
  by (fastforce simp: ids_save)

lemma run_keeps_absent:
  "i \<notin> set (map m_id (materials s)) \<Longrightarrow> \<not> list_ex (createsMaterial i) rs \<Longrightarrow>
     i \<notin> set (map m_id (materials (run env s rs)))"
proof (induction rs arbitrary: s)
  case Nil
  then show ?case by simp
next
  case (Cons r rs)
  from Cons.prems have "i \<notin> set (map m_id (materials (fst (handle env s r))))"
    by (intro handle_keeps_absent) auto
  with Cons show ?case by simp
qed


subsection \<open>The store invariants hold in every reachable state\<close>

lemma User_create_Inr:
  "User_create env us newId now nm em pw rl dep sem = Inr u \<Longrightarrow>
     u_id u = newId \<and> newId \<notin> set (map u_id us) \<and> u_email u = emailSetters env em"
  by (auto simp: User_create_def split: option.splits if_splits)

lemma Chat_create_Inr:
  "Chat_create cs newId now uid msg resp = Inr e \<Longrightarrow> c_id e = newId \<and> newId \<notin> set (map c_id cs)"
  by (auto simp: Chat_create_def split: if_splits)

lemma users_register:
  "users (fst (register env s b newId now)) = users s
   \<or> (\<exists>u. u_id u \<notin> set (map u_id (users s))
          \<and> users (fst (register env s b newId now)) = users s @ [u])"
  by (auto simp: register_def split: option.splits sum.splits dest: User_create_Inr)

lemma chats_register: "chats (fst (register env s b newId now)) = chats s"
  by (auto simp: register_def split: option.splits sum.splits)

lemma users_chat: "users (fst (chat env s c message newId now)) = users s"
  by (auto simp: chat_def Let_def split: sum.splits)

lemma chats_chat:
  "chats (fst (chat env s c message newId now)) = chats s
   \<or> (\<exists>e. c_id e \<notin> set (map c_id (chats s))
          \<and> chats (fst (chat env s c message newId now)) = chats s @ [e])"
  by (auto simp: chat_def Let_def split: sum.splits dest: Chat_create_Inr)

lemma others_uploadMaterial:
  "users (fst (uploadMaterial env s c b file newId now)) = users s
   \<and> chats (fst (uploadMaterial env s c b file newId now)) = chats s"
  by (auto simp: uploadMaterial_def split: option.splits sum.splits)

lemma others_toggleLike:
  "users (fst (toggleLike env s c p now)) = users s
   \<and> chats (fst (toggleLike env s c p now)) = chats s"
  by (auto simp: toggleLike_def Let_def split: option.splits idParam.splits)

lemma others_recordDownload:
  "users (fst (recordDownload env s p now)) = users s
   \<and> chats (fst (recordDownload env s p now)) = chats s"
  by (auto simp: recordDownload_def Let_def split: option.splits idParam.splits)

lemma others_deleteMaterial:
  "users (fst (deleteMaterial env s c p)) = users s
   \<and> chats (fst (deleteMaterial env s c p)) = chats s"
  by (auto simp: deleteMaterial_def split: option.splits idParam.splits)

lemma users_handle:
  "users (fst (handle env s r)) = users s
   \<or> (\<exists>u. u_id u \<notin> set (map u_id (users s)) \<and> users (fst (handle env s r)) = users s @ [u])"
  using users_register
  by (cases r)
    (simp_all add: users_chat others_uploadMaterial others_toggleLike others_recordDownload
      others_deleteMaterial)

lemma chats_handle:
  "chats (fst (handle env s r)) = chats s
   \<or> (\<exists>e. c_id e \<notin> set (map c_id (chats s)) \<and> chats (fst (handle env s r)) = chats s @ [e])"
  using chats_chat
  by (cases r)
    (simp_all add: chats_register others_uploadMaterial others_toggleLike others_recordDownload
      others_deleteMaterial)

lemma likes_save:
  assumes "list_all (\<lambda>m. distinct (m_likes m)) ms" and "distinct (m_likes m')"
  shows "list_all (\<lambda>m. distinct (m_likes m)) (Material_save ms m')"
  using assms set_save [of ms m'] by (auto simp: list_all_iff)

lemma likes_delete:
  assumes "list_all (\<lambda>m. distinct (m_likes m)) ms"
  shows "list_all (\<lambda>m. distinct (m_likes m)) (Material_findByIdAndDelete ms i)"
  using assms set_delete_subset [of ms i] by (auto simp: list_all_iff)

lemma materials_wellFormed:
  assumes d: "distinct (map m_id (materials s))"
    and l: "list_all (\<lambda>m. distinct (m_likes m)) (materials s)"
  shows "distinct (map m_id (materials (fst (handle env s r))))
         \<and> list_all (\<lambda>m. distinct (m_likes m)) (materials (fst (handle env s r)))"
proof -
  consider
      (same) "materials (fst (handle env s r)) = materials s"
    | (new) x where "m_id x \<notin> set (map m_id (materials s))" "m_likes x = []"
        "materials (fst (handle env s r)) = materials s @ [x]"
    | (save) x x' where "Material_findById (materials s) (m_id x') = Some x"
        "distinct (m_likes x) \<longrightarrow> distinct (m_likes x')"
        "materials (fst (handle env s r)) = Material_save (materials s) x'"
    | (del) i where "materials (fst (handle env s r)) = Material_findByIdAndDelete (materials s) i"
    using materials_handle [of env s r] by blast
  then show ?thesis
  proof cases
    case same
    with d l show ?thesis by simp
  next
    case new
    with d l show ?thesis by simp
  next
    case save
    from save(1) have "x \<in> set (materials s)" by (rule findById_mem)
    with l save(2) have "distinct (m_likes x')" by (simp add: list_all_iff)
    with d l save(3) show ?thesis by (simp add: ids_save likes_save)
  next
    case del
    with d l show ?thesis by (simp add: distinct_delete likes_delete)
  qed
qed

lemma handle_wellFormed: "wellFormed s \<Longrightarrow> wellFormed (fst (handle env s r))"
  using users_handle [of env s r] chats_handle [of env s r] materials_wellFormed [of s env r]
  unfolding wellFormed_def by auto

lemma run_wellFormed: "wellFormed s \<Longrightarrow> wellFormed (run env s rs)"
  by (induction rs arbitrary: s) (simp_all add: handle_wellFormed)

lemma reachable_wellFormed: "wellFormed (run env emptyState rs)"
  by (rule run_wellFormed) (simp add: wellFormed_def emptyState_def)

subsection \<open>ToggleLike\<close>

lemma toggleLike_found:
  assumes "Material_findById (materials s) i = Some m"
  shows "toggleLike env s c (ObjId i) now =
           (s\<lparr>materials := Material_save (materials s)
                 (m\<lparr>m_likes := toggleLikes (m_likes m) (userId c), m_updatedAt := now\<rparr>)\<rparr>,
            likeResponse (length (toggleLikes (m_likes m) (userId c)))
              (userId c \<in> set (toggleLikes (m_likes m) (userId c))))"
  using assms by (simp add: toggleLike_def Let_def likeResponse_def list_ex_iff)

lemma toggleLike_likesOf:
  assumes "Material_findById (materials s) i = Some m"
  shows "likesOf (fst (toggleLike env s c (ObjId i) now)) i = Some (toggleLikes (m_likes m) (userId c))"
proof -
  from assms have "m_id m = i" by (rule findById_id)
  with assms show ?thesis
    using findById_save_same
      [of "materials s" "m\<lparr>m_likes := toggleLikes (m_likes m) (userId c), m_updatedAt := now\<rparr>"]
    by (simp add: toggleLike_found likesOf_def)
qed

subsection \<open>ToggleLike twice\<close>

text \<open>
  C3, as the code has it: for a material whose likes hold no user twice, each ToggleLike
  answers with the size of the likes after the call and with whether the user is among
  them then; the first call flips the user's membership; after the second call the likes
  are the original set, and the second answer has the original count and the flag that
  says whether the user liked the material originally (so \<open>false\<close> exactly when the user
  had not liked it).
\<close>

theorem toggleLike_twice:
  assumes found: "Material_findById (materials s) i = Some m"
    and noDup: "distinct (m_likes m)"
    and first: "toggleLike env s c (ObjId i) t1 = (s1, r1)"
    and second: "toggleLike env s1 c (ObjId i) t2 = (s2, r2)"
  shows "\<exists>l1 l2. likesOf s1 i = Some l1 \<and> likesOf s2 i = Some l2
           \<and> r1 = likeResponse (length l1) (userId c \<in> set l1)
           \<and> r2 = likeResponse (length l2) (userId c \<in> set l2)
           \<and> (userId c \<in> set l1 \<longleftrightarrow> userId c \<notin> set (m_likes m))
           \<and> set l2 = set (m_likes m)
           \<and> r2 = likeResponse (length (m_likes m)) (userId c \<in> set (m_likes m))"
proof -
  let ?u = "userId c"
  let ?l1 = "toggleLikes (m_likes m) ?u"
  let ?l2 = "toggleLikes ?l1 ?u"
  let ?m1 = "m\<lparr>m_likes := ?l1, m_updatedAt := t1\<rparr>"
  have idm: "m_id m = i" using found by (rule findById_id)
  have s1: "s1 = s\<lparr>materials := Material_save (materials s) ?m1\<rparr>"
    and r1: "r1 = likeResponse (length ?l1) (?u \<in> set ?l1)"
    using first toggleLike_found [OF found, of env c t1] by simp_all
  have likes1: "likesOf s1 i = Some ?l1"
    using toggleLike_likesOf [OF found, of env c t1] first by simp
  have found1: "Material_findById (materials s1) i = Some ?m1"
    using findById_save_same [of "materials s" ?m1] found idm by (simp add: s1)
  have r2: "r2 = likeResponse (length ?l2) (?u \<in> set ?l2)"
    using second toggleLike_found [OF found1, of env c t2] by simp
  have likes2: "likesOf s2 i = Some ?l2"
    using toggleLike_likesOf [OF found1, of env c t2] second by simp
  have d1: "distinct ?l1" using noDup by (rule distinct_toggleLikes)
  have flip: "?u \<in> set ?l1 \<longleftrightarrow> ?u \<notin> set (m_likes m)"
    using noDup by (rule toggleLikes_member)
  have set2: "set ?l2 = set (m_likes m)"
    using noDup d1 by (auto simp: set_toggleLikes split: if_splits)
  have len2: "length ?l2 = length (m_likes m)"
  proof (cases "?u \<in> set (m_likes m)")
    case True
    then have "length (m_likes m) \<noteq> 0" by auto
    with True flip show ?thesis by (simp add: length_toggleLikes)
  next
    case False
    with flip show ?thesis by (simp add: length_toggleLikes)
  qed
  have "r2 = likeResponse (length (m_likes m)) (?u \<in> set (m_likes m))"
    using r2 set2 len2 by simp
  with likes1 likes2 r1 r2 flip set2 show ?thesis by blast
qed

theorem toggleLike_twice_witness:
  "\<exists>l1 l2. likesOf likedState 11 = Some l1 \<and> likesOf unlikedState 11 = Some l2
     \<and> likeResponse 1 True = likeResponse (length l1) (userId studentClaims \<in> set l1)
     \<and> likeResponse 0 False = likeResponse (length l2) (userId studentClaims \<in> set l2)
     \<and> (userId studentClaims \<in> set l1 \<longleftrightarrow> userId studentClaims \<notin> set (m_likes (calcNotes 11 101)))
     \<and> set l2 = set (m_likes (calcNotes 11 101))
     \<and> likeResponse 0 False
         = likeResponse (length (m_likes (calcNotes 11 101)))
             (userId studentClaims \<in> set (m_likes (calcNotes 11 101)))"
proof -
  have found: "Material_findById (materials oneState) 11 = Some (calcNotes 11 101)"
    by code_simp
  have noDup: "distinct (m_likes (calcNotes 11 101))" by code_simp
  have first: "toggleLike env0 oneState studentClaims (ObjId 11) 200
                 = (likedState, likeResponse 1 True)"
    by code_simp
  have second: "toggleLike env0 likedState studentClaims (ObjId 11) 201
                  = (unlikedState, likeResponse 0 False)"
    by code_simp
  show ?thesis
    by (rule toggleLike_twice [OF found noDup first second])
qed

text \<open>
  The second answer is not \<open>false\<close> for every user: where the user already likes the
  material, as the student does in \<open>likedState\<close>, the first of two calls in sequence
  removes the like and the second puts it back, so the second answer says \<open>true\<close>.
\<close>

theorem toggleLike_twice_counterexample:
  "toggleLike env0 oneState studentClaims (ObjId 11) 200 = (likedState, likeResponse 1 True)
   \<and> likesOf likedState 11 = Some [userId studentClaims]
   \<and> toggleLike env0 likedState studentClaims (ObjId 11) 201
       = (unlikedState, likeResponse 0 False)
   \<and> snd (toggleLike env0 unlikedState studentClaims (ObjId 11) 202) = likeResponse 1 True"
  by code_simp

subsection \<open>DeleteMaterial\<close>

lemma getMaterial_absent:
  "i \<notin> set (map m_id (materials s)) \<Longrightarrow>
     getMaterial env s (ObjId i) = Response 404 (errorBody ''Material not found'')"
  using findById_None_iff [of "materials s" i] by (simp add: getMaterial_def)

lemma deleteMaterial_forbidden:
  "role c \<noteq> ''faculty'' \<Longrightarrow>
     deleteMaterial env s c p = (s, Response 403 (errorBody ''Access denied. Faculty only.''))"
  by (simp add: deleteMaterial_def facultyOnly_def)

lemma deleteMaterial_faculty:
  assumes "role c = ''faculty''" and "Material_findById (materials s) i = Some m"
  shows "deleteMaterial env s c (ObjId i) =
           (s\<lparr>materials := Material_findByIdAndDelete (materials s) i\<rparr>,
            Response 200 (JObj [(''message'', JStr ''Material deleted successfully'')]))"
  using assms by (simp add: deleteMaterial_def facultyOnly_def)

text \<open>
  C5: for claims whose role is not \<open>faculty\<close>, DeleteMaterial answers 403 and leaves the
  database as it was; for the role \<open>faculty\<close> and the \<open>_id\<close> of a stored material (in a
  store with unique \<open>_id\<close>s) it answers 200, and GetMaterial on that \<open>_id\<close> answers 404
  after any further requests in which the store does not create a material under that
  \<open>_id\<close> again.
\<close>

theorem deleteMaterial_access:
  "(role c \<noteq> ''faculty'' \<longrightarrow>
      deleteMaterial env s c p = (s, Response 403 (errorBody ''Access denied. Faculty only.'')))
   \<and> (role c = ''faculty'' \<and> distinct (map m_id (materials s))
        \<and> Material_findById (materials s) i = Some m \<longrightarrow>
        snd (deleteMaterial env s c (ObjId i))
          = Response 200 (JObj [(''message'', JStr ''Material deleted successfully'')])
        \<and> (\<forall>rs. \<not> list_ex (createsMaterial i) rs \<longrightarrow>
              getMaterial env (run env (fst (deleteMaterial env s c (ObjId i))) rs) (ObjId i)
                = Response 404 (errorBody ''Material not found'')))"
proof (intro conjI impI allI)
  assume "role c \<noteq> ''faculty''"
  then show "deleteMaterial env s c p = (s, Response 403 (errorBody ''Access denied. Faculty only.''))"
    by (rule deleteMaterial_forbidden)
next
  assume a: "role c = ''faculty'' \<and> distinct (map m_id (materials s))
               \<and> Material_findById (materials s) i = Some m"
  then show "snd (deleteMaterial env s c (ObjId i))
               = Response 200 (JObj [(''message'', JStr ''Material deleted successfully'')])"
    by (simp add: deleteMaterial_faculty)
next
  fix rs
  assume a: "role c = ''faculty'' \<and> distinct (map m_id (materials s))
               \<and> Material_findById (materials s) i = Some m"
    and rs: "\<not> list_ex (createsMaterial i) rs"
  let ?s' = "fst (deleteMaterial env s c (ObjId i))"
  have "materials ?s' = Material_findByIdAndDelete (materials s) i"
    using a by (simp add: deleteMaterial_faculty)
  then have "Material_findById (materials ?s') i = None"
    using a by (simp add: findById_delete_same)
  then have "i \<notin> set (map m_id (materials ?s'))"
    by (simp add: findById_None_iff)
  then have "i \<notin> set (map m_id (materials (run env ?s' rs)))"
    using rs by (rule run_keeps_absent)
  then show "getMaterial env (run env ?s' rs) (ObjId i)
               = Response 404 (errorBody ''Material not found'')"
    by (rule getMaterial_absent)
qed

theorem deleteMaterial_access_witness:
  "role studentClaims \<noteq> ''faculty''
   \<and> deleteMaterial env0 oneState studentClaims (ObjId 11)
       = (oneState, Response 403 (errorBody ''Access denied. Faculty only.''))
   \<and> role facultyClaims = ''faculty'' \<and> distinct (map m_id (materials oneState))
   \<and> Material_findById (materials oneState) 11 = Some (calcNotes 11 101)
   \<and> snd (deleteMaterial env0 oneState facultyClaims (ObjId 11))
       = Response 200 (JObj [(''message'', JStr ''Material deleted successfully'')])
   \<and> getMaterial env0
        (run env0 (fst (deleteMaterial env0 oneState facultyClaims (ObjId 11)))
           [UploadMaterial facultyClaims calcUpload (Some calcFile) 12 300])
        (ObjId 11)
       = Response 404 (errorBody ''Material not found'')"
proof -
  have student: "role studentClaims \<noteq> ''faculty''" by code_simp
  have faculty: "role facultyClaims = ''faculty''" by code_simp
  have d: "distinct (map m_id (materials oneState))" by code_simp
  have found: "Material_findById (materials oneState) 11 = Some (calcNotes 11 101)"
    by code_simp
  have rs: "\<not> list_ex (createsMaterial 11)
              [UploadMaterial facultyClaims calcUpload (Some calcFile) 12 300]"
    by simp
  show ?thesis
    using deleteMaterial_access [of studentClaims env0 oneState "ObjId 11" 11 "calcNotes 11 101"]
      deleteMaterial_access [of facultyClaims env0 oneState "ObjId 11" 11 "calcNotes 11 101"]
      student faculty d found rs
    by blast
qed

subsection \<open>RecordDownload\<close>







subsection \<open>Register twice under one email\<close>

lemma register_created:
  assumes "register env s b newId now = (s1, Response 201 payload)" and "rb_email b = Some e"
  shows "\<exists>u. users s1 = users s @ [u]
           \<and> u_email u = emailSetters env (trim env (toLowerCase env e))
           \<and> payload = JObj [(''message'', JStr ''User registered successfully!''),
                             (''token'', JStr (signToken env u)), (''user'', userSummary u)]"
  using assms
  by (auto simp: register_def errorBody_def
      split: option.splits if_splits sum.splits dest!: User_create_Inr)

lemma findOne_email_append:
  "User_findOne_email env us e \<noteq> None \<Longrightarrow> User_findOne_email env (us @ vs) e \<noteq> None"
  by (auto simp: User_findOne_email_def find_None_iff)

lemma findOne_email_last:
  "u_email u = emailSetters env e \<Longrightarrow> User_findOne_email env (us @ [u]) e \<noteq> None"
  by (auto simp: User_findOne_email_def find_None_iff)

lemma findOne_email_handle:
  "User_findOne_email env (users s) e \<noteq> None \<Longrightarrow>
     User_findOne_email env (users (fst (handle env s r))) e \<noteq> None"
  using users_handle [of env s r] findOne_email_append [of env "users s" e] by auto

lemma findOne_email_run:
  "User_findOne_email env (users s) e \<noteq> None \<Longrightarrow>
     User_findOne_email env (users (run env s rs)) e \<noteq> None"
proof (induction rs arbitrary: s)
  case Nil
  then show ?case by simp
next
  case (Cons r rs)
  from Cons.prems have "User_findOne_email env (users (fst (handle env s r))) e \<noteq> None"
    by (rule findOne_email_handle)
  then show ?case using Cons.IH by simp
qed

lemma register_existing:
  assumes "rb_email b = Some e"
    and "User_findOne_email env (users s) (trim env (toLowerCase env e)) \<noteq> None"
  shows "fst (register env s b newId now) = s"
    and "status (snd (register env s b newId now)) = 400"
    and "truthy (rb_name b) \<and> truthy (rb_email b) \<and> truthy (rb_password b) \<and> truthy (rb_role b)
         \<longrightarrow> snd (register env s b newId now)
               = Response 400 (errorBody ''User already exists with this email'')"
  using assms by (auto simp: register_def split: option.splits)

lemma register_missing_field:
  "\<not> (truthy (rb_name b) \<and> truthy (rb_email b) \<and> truthy (rb_password b) \<and> truthy (rb_role b))
     \<Longrightarrow> register env s b newId now = (s, Response 400 (errorBody ''All fields are required''))"
  by (cases "rb_name b"; cases "rb_email b"; cases "rb_password b"; cases "rb_role b")
    (auto simp: register_def)

text \<open>
  C7, as the code has it: after a Register call that created a user, and after any
  further requests, a Register call whose email is equal to the first up to case and
  surrounding white space creates no user and is answered 400. The check of the required
  fields comes first: when name, email, password and role of the second call are all
  supplied and not empty, the answer is \<open>User already exists with this email\<close>, whatever
  the password and the other fields are; when one of them is absent or empty, it is
  \<open>All fields are required\<close>.
\<close>

theorem register_duplicate_email:
  assumes first: "register env s b1 id1 t1 = (s1, Response 201 payload)"
    and e1: "rb_email b1 = Some e1"
    and e2: "rb_email b2 = Some e2"
    and same: "trim env (toLowerCase env e2) = trim env (toLowerCase env e1)"
  shows "fst (register env (run env s1 rs) b2 id2 t2) = run env s1 rs
         \<and> status (snd (register env (run env s1 rs) b2 id2 t2)) = 400
         \<and> (truthy (rb_name b2) \<and> truthy (rb_email b2) \<and> truthy (rb_password b2)
              \<and> truthy (rb_role b2) \<longrightarrow>
            snd (register env (run env s1 rs) b2 id2 t2)
              = Response 400 (errorBody ''User already exists with this email''))
         \<and> (\<not> (truthy (rb_name b2) \<and> truthy (rb_email b2) \<and> truthy (rb_password b2)
                 \<and> truthy (rb_role b2)) \<longrightarrow>
            snd (register env (run env s1 rs) b2 id2 t2)
              = Response 400 (errorBody ''All fields are required''))"
proof -
  obtain u where "users s1 = users s @ [u]"
    "u_email u = emailSetters env (trim env (toLowerCase env e1))"
    using register_created [OF first e1] by blast
  then have "User_findOne_email env (users s1) (trim env (toLowerCase env e2)) \<noteq> None"
    using findOne_email_last [of u env "trim env (toLowerCase env e2)" "users s"] same by simp
  then have "User_findOne_email env (users (run env s1 rs)) (trim env (toLowerCase env e2))
               \<noteq> None"
    by (rule findOne_email_run)
  from register_existing [OF e2 this, of id2 t2]
    register_missing_field [of b2 env "run env s1 rs" id2 t2]
  show ?thesis by (simp add: prod_eq_iff)
qed

theorem register_duplicate_email_witness:
  "rb_email facultyBody = Some ''f@x.com'' \<and> rb_email dupBody = Some ''  F@X.com ''
   \<and> trim env0 (toLowerCase env0 ''  F@X.com '') = trim env0 (toLowerCase env0 ''f@x.com'')
   \<and> fst (register env0 emptyState facultyBody 1 100) = facultyState
   \<and> status (snd (register env0 emptyState facultyBody 1 100)) = 201
   \<and> register env0 (run env0 facultyState [Register studentBody 2 102]) dupBody 3 103
       = (run env0 facultyState [Register studentBody 2 102],
          Response 400 (errorBody ''User already exists with this email''))"
proof -
  have first: "register env0 emptyState facultyBody 1 100
                 = (facultyState, Response 201 (body (snd (register env0 emptyState facultyBody 1 100))))"
    by code_simp
  have e1: "rb_email facultyBody = Some ''f@x.com''" by code_simp
  have e2: "rb_email dupBody = Some ''  F@X.com ''" by code_simp
  have same: "trim env0 (toLowerCase env0 ''  F@X.com '')
                = trim env0 (toLowerCase env0 ''f@x.com'')"
    by code_simp
  have fields: "truthy (rb_name dupBody) \<and> truthy (rb_email dupBody)
                 \<and> truthy (rb_password dupBody) \<and> truthy (rb_role dupBody)"
    by code_simp
  have st: "status (snd (register env0 emptyState facultyBody 1 100)) = 201"
    by code_simp
  have "fst (register env0 (run env0 facultyState [Register studentBody 2 102]) dupBody 3 103)
          = run env0 facultyState [Register studentBody 2 102]
        \<and> snd (register env0 (run env0 facultyState [Register studentBody 2 102]) dupBody 3 103)
          = Response 400 (errorBody ''User already exists with this email'')"
    using register_duplicate_email [OF first e1 e2 same,
        of "[Register studentBody 2 102]" 3 103] fields
    by blast
  then have "register env0 (run env0 facultyState [Register studentBody 2 102]) dupBody 3 103
       = (run env0 facultyState [Register studentBody 2 102],
          Response 400 (errorBody ''User already exists with this email''))"
    by (simp add: prod_eq_iff)
  moreover have "fst (register env0 emptyState facultyBody 1 100) = facultyState"
    by code_simp
  ultimately show ?thesis using e1 e2 same st by blast
qed

text \<open>
  The second call is not always answered \<open>User already exists with this email\<close>. With
  the faculty member registered, a second call under the same email in another case and
  with an empty password is answered \<open>All fields are required\<close>. And where the first
  call has no name, it creates no user, and the second call under the same email
  succeeds.
\<close>

theorem register_duplicate_email_counterexample:
  "fst (register env0 emptyState facultyBody 1 100) = facultyState
   \<and> status (snd (register env0 emptyState facultyBody 1 100)) = 201
   \<and> trim env0 (toLowerCase env0 ''  F@X.com '') = trim env0 (toLowerCase env0 ''f@x.com'')
   \<and> rb_email noPasswordBody = Some ''  F@X.com '' \<and> rb_password noPasswordBody = Some []
   \<and> register env0 facultyState noPasswordBody 3 103
       = (facultyState, Response 400 (errorBody ''All fields are required''))
   \<and> rb_email namelessBody = rb_email facultyBody
   \<and> register env0 emptyState namelessBody 1 100
       = (emptyState, Response 400 (errorBody ''All fields are required''))
   \<and> status (snd (register env0 emptyState facultyBody 2 101)) = 201"
  by code_simp

subsection \<open>User summaries\<close>

lemma allKeys_errorBody: "allKeys (errorBody msg) = [''error'']"
  by (simp add: errorBody_def)

lemma allKeys_userSummary:
  "allKeys (userSummary u) = [''id'', ''name'', ''email'', ''role'', ''department'', ''semester'']"
  by (simp add: userSummary_def)

lemma allKeys_authBody:
  "allKeys (JObj [(''message'', JStr msg), (''token'', JStr tok), (''user'', userSummary u)])
     = [''message'', ''token'', ''user'', ''id'', ''name'', ''email'', ''role'', ''department'',
        ''semester'']"
  by (simp add: allKeys_userSummary)

lemma register_no_password:
  "''password'' \<notin> set (allKeys (body (snd (register env s b newId now))))"
  by (auto simp: register_def allKeys_errorBody allKeys_userSummary
      split: option.splits sum.splits)

lemma login_no_password: "''password'' \<notin> set (allKeys (body (login env s b)))"
  by (auto simp: login_def allKeys_errorBody allKeys_userSummary split: option.splits)

lemma getSelf_no_password: "''password'' \<notin> set (allKeys (body (getSelf s c)))"
  by (auto simp: getSelf_def allKeys_errorBody allKeys_userSummary split: option.splits)

lemma user_toJSON_no_password: "''password'' \<notin> set (allKeys (user_toJSON u))"
  by (simp add: user_toJSON_def user_toObject_def)

lemma find_mem: "find P xs = Some x \<Longrightarrow> x \<in> set xs"
  by (induction xs) (auto split: if_splits)

lemma login_summary:
  "login env s b = Response 200 payload \<Longrightarrow>
     \<exists>u\<in>set (users s). payload = JObj [(''message'', JStr ''Login successful!''),
                          (''token'', JStr (signToken env u)), (''user'', userSummary u)]"
  by (auto simp: login_def User_findOne_email_def errorBody_def
      split: option.splits if_splits dest: find_mem)

lemma getSelf_summary:
  "getSelf s c = Response 200 payload \<Longrightarrow> \<exists>u\<in>set (users s). payload = userSummary u"
  by (auto simp: getSelf_def User_findById_def split: option.splits dest: find_mem)

text \<open>
  C9: no response of Register, Login or GetSelf has a key \<open>password\<close> at any depth; a
  user summary has the keys id, name, email, role, department and semester and no other,
  and it and the token are the same whatever the stored password hash is; a successful
  Register or Login carries such a summary of a stored user under \<open>user\<close>, and a
  successful GetSelf is one.
\<close>

theorem summaries_omit_password:
  "''password'' \<notin> set (allKeys (body (snd (register env s rb newId now))))
   \<and> ''password'' \<notin> set (allKeys (body (login env s lb)))
   \<and> ''password'' \<notin> set (allKeys (body (getSelf s c)))
   \<and> jkeys (userSummary u) = [''id'', ''name'', ''email'', ''role'', ''department'', ''semester'']
   \<and> userSummary (u\<lparr>u_password := h\<rparr>) = userSummary u
   \<and> signToken env (u\<lparr>u_password := h\<rparr>) = signToken env u
   \<and> (register env s rb newId now = (s', Response 201 payload) \<longrightarrow>
        (\<exists>v\<in>set (users s'). jfield ''user'' payload = Some (userSummary v)))
   \<and> (login env s lb = Response 200 payload \<longrightarrow>
        (\<exists>v\<in>set (users s). jfield ''user'' payload = Some (userSummary v)))
   \<and> (getSelf s c = Response 200 payload \<longrightarrow> (\<exists>v\<in>set (users s). payload = userSummary v))"
proof (intro conjI impI)
  show "jkeys (userSummary u) = [''id'', ''name'', ''email'', ''role'', ''department'', ''semester'']"
    by (simp add: userSummary_def)
  show "userSummary (u\<lparr>u_password := h\<rparr>) = userSummary u"
    by (simp add: userSummary_def)
  show "signToken env (u\<lparr>u_password := h\<rparr>) = signToken env u"
    by (simp add: signToken_def)
next
  assume "register env s rb newId now = (s', Response 201 payload)"
  then show "\<exists>v\<in>set (users s'). jfield ''user'' payload = Some (userSummary v)"
    by (auto simp: register_def errorBody_def split: option.splits if_splits sum.splits)
next
  assume "login env s lb = Response 200 payload"
  then show "\<exists>v\<in>set (users s). jfield ''user'' payload = Some (userSummary v)"
    using login_summary by fastforce
next
  assume "getSelf s c = Response 200 payload"
  then show "\<exists>v\<in>set (users s). payload = userSummary v"
    by (rule getSelf_summary)
qed (rule register_no_password login_no_password getSelf_no_password)+

theorem summaries_omit_password_witness:
  "login env0 facultyState facultyLogin
     = Response 200 (JObj [(''message'', JStr ''Login successful!''), (''token'', JStr ''jwt.f@x.com''),
         (''user'', JObj [(''id'', JId 1), (''name'', JStr ''Prof''), (''email'', JStr ''f@x.com''),
            (''role'', JStr ''faculty''), (''department'', JStr ''Computer Science''),
            (''semester'', JNum 1)])])
   \<and> (\<exists>v\<in>set (users facultyState).
         jfield ''user'' (body (login env0 facultyState facultyLogin)) = Some (userSummary v))
   \<and> (\<exists>v\<in>set (users facultyState).
         jfield ''user'' (body (snd (register env0 emptyState facultyBody 1 100)))
           = Some (userSummary v))
   \<and> (\<exists>v\<in>set (users facultyState). body (getSelf facultyState facultyClaims) = userSummary v)
   \<and> ''password'' \<notin> set (allKeys (body (login env0 facultyState facultyLogin)))"
proof -
  have reg: "register env0 emptyState facultyBody 1 100
               = (facultyState, Response 201 (body (snd (register env0 emptyState facultyBody 1 100))))"
    by code_simp
  have lg: "login env0 facultyState facultyLogin
     = Response 200 (JObj [(''message'', JStr ''Login successful!''), (''token'', JStr ''jwt.f@x.com''),
         (''user'', JObj [(''id'', JId 1), (''name'', JStr ''Prof''), (''email'', JStr ''f@x.com''),
            (''role'', JStr ''faculty''), (''department'', JStr ''Computer Science''),
            (''semester'', JNum 1)])])"
    by code_simp
  have lg': "login env0 facultyState facultyLogin
               = Response 200 (body (login env0 facultyState facultyLogin))"
    by code_simp
  have me: "getSelf facultyState facultyClaims
               = Response 200 (body (getSelf facultyState facultyClaims))"
    by code_simp
  show ?thesis
    using lg
      summaries_omit_password [of env0 emptyState facultyBody 1 100 facultyLogin facultyClaims
        _ _ facultyState "body (snd (register env0 emptyState facultyBody 1 100))"]
      summaries_omit_password [of env0 facultyState facultyBody 1 100 facultyLogin facultyClaims
        _ _ facultyState "body (login env0 facultyState facultyLogin)"]
      summaries_omit_password [of env0 facultyState facultyBody 1 100 facultyLogin facultyClaims
        _ _ facultyState "body (getSelf facultyState facultyClaims)"]
      reg lg' me
    by blast
qed

subsection \<open>ListMaterials\<close>


lemma supplied_cases: "supplied x = None \<or> (\<exists>t. t \<noteq> [] \<and> x = Some t \<and> supplied x = Some t)"
  by (cases x) (auto simp: supplied_def)

lemma supplied_truthy: "supplied x = None \<longleftrightarrow> \<not> truthy x"
  by (cases x) (auto simp: supplied_def)

lemma buildQuery_not_truthy:
  "\<not> truthy (q_semester q) \<Longrightarrow> buildQuery env q = buildQuery env (q\<lparr>q_semester := None\<rparr>)"
  by (cases "q_semester q") (simp_all add: buildQuery_def supplied_def)

lemma listMaterials_semester_absent:
  "\<not> truthy (q_semester q) \<Longrightarrow> listMaterials env s q = listMaterials env s (q\<lparr>q_semester := None\<rparr>)"
  using buildQuery_not_truthy [of q] by (simp add: listMaterials_def)

lemma listMaterials_semester_NaN:
  assumes "q_semester q = Some t" and "t \<noteq> []" and "parseInt env t = None"
  shows "listMaterials env s q = Response 500 (errorBody (error_message env CastError))"
proof -
  have "mq_semester (buildQuery env q) = Some None"
    using assms by (simp add: buildQuery_def supplied_def)
  then have "Material_find env (materials s) (buildQuery env q) = Inl CastError"
    by (simp add: Material_find_def)
  then show ?thesis by (simp add: listMaterials_def)
qed

text \<open>
  C2, as the code has it: a semester parameter that is absent or empty imposes nothing,
  the request is answered as the same request without it; a semester parameter that is
  not empty and does not parse as an integer puts \<open>NaN\<close> into the query, which the cast
  to the Number path rejects, and the request is answered 500 with the message of the
  cast error, whatever the other parameters and the stored materials are.
\<close>

theorem listMaterials_semester:
  "(\<not> truthy (q_semester q) \<longrightarrow>
      listMaterials env s q = listMaterials env s (q\<lparr>q_semester := None\<rparr>))
   \<and> (q_semester q = Some t \<and> t \<noteq> [] \<and> parseInt env t = None \<longrightarrow>
        listMaterials env s q = Response 500 (errorBody (error_message env CastError)))"
  using listMaterials_semester_absent listMaterials_semester_NaN by blast

theorem listMaterials_semester_witness:
  "\<not> truthy (q_semester (emptyQuery\<lparr>q_semester := Some []\<rparr>))
   \<and> listMaterials env0 oneState (emptyQuery\<lparr>q_semester := Some []\<rparr>)
       = listMaterials env0 oneState (emptyQuery\<lparr>q_semester := Some [], q_semester := None\<rparr>)
   \<and> q_semester badSemesterQuery = Some ''abc'' \<and> ''abc'' \<noteq> [] \<and> parseInt env0 ''abc'' = None
   \<and> listMaterials env0 oneState badSemesterQuery
       = Response 500 (errorBody (error_message env0 CastError))"
proof -
  have a: "\<not> truthy (q_semester (emptyQuery\<lparr>q_semester := Some []\<rparr>))" by simp
  have b: "q_semester badSemesterQuery = Some ''abc''" by code_simp
  have c: "''abc'' \<noteq> []" by simp
  have d: "parseInt env0 ''abc'' = None" by code_simp
  show ?thesis
    using listMaterials_semester [of "emptyQuery\<lparr>q_semester := Some []\<rparr>" env0 oneState "''abc''"]
      listMaterials_semester [of badSemesterQuery env0 oneState "''abc''"] a b c d
    by blast
qed

text \<open>
  A semester that does not parse is not ignored: with one material stored, the request
  without a semester returns it, and the same request with the semester \<open>abc\<close> is
  answered 500.
\<close>

theorem listMaterials_semester_counterexample:
  "parseInt env0 ''abc'' = None
   \<and> listMaterials env0 oneState badSemesterQuery = Response 500 (errorBody ''store error'')
   \<and> listMaterials env0 oneState (badSemesterQuery\<lparr>q_semester := None\<rparr>)
       = Response 200 (JArr [materialView (calcNotes 11 101)])"
  by code_simp








subsection \<open>The example engine\<close>






subsection \<open>Dashboard\<close>

lemma dashboard_recent:
  "jfield ''recentMaterials'' (body (dashboard s)) = Some (JArr (map recentView (take 5 (materials s))))"
  by (simp add: dashboard_def recentMaterials_def)

text \<open>
  C1: the Dashboard should list the five most recently created materials, newest first.
  After six uploads at the times 101 to 106 the handler lists the materials created at
  101 to 105, oldest first: the first five in the natural order of the collection. The
  five most recent are those created at 106 down to 102.
\<close>

theorem dashboard_lists_oldest:
  "map m_createdAt (materials sixState) = [101, 102, 103, 104, 105, 106]
   \<and> jfield ''recentMaterials'' (body (dashboard sixState))
       = Some (JArr (map recentView
           [calcNotes 11 101, calcNotes 12 102, calcNotes 13 103, calcNotes 14 104,
            calcNotes 15 105]))
   \<and> fiveMostRecent sixState
       = [calcNotes 16 106, calcNotes 15 105, calcNotes 14 104, calcNotes 13 103,
          calcNotes 12 102]"
  by code_simp

end
